theory Spec2Isabelle
  imports Main "HOL-Library.AList"
begin

section \<open>The Gitea adapter of the git provider abstraction (pkg/gits/gitea.go)\<close>

text \<open>
  The adapter forwards every operation to the Gitea REST client (\<^verbatim>\<open>p.Client\<close>, an external
  library) and reshapes the answer into the provider-neutral structs. The client is
  taken as a parameter: a record of state transformers over an arbitrary backend state
  \<open>'s\<close>. A Go pointer that the source tests against \<^verbatim>\<open>nil\<close> is an \<open>option\<close>; a Go
  slice is a list; Go's \<^verbatim>\<open>int\<close> and \<^verbatim>\<open>int64\<close> are \<open>int\<close> (both are 64 bits wide on the
  platforms the program is built for, and the source only converts between them).
  The entries of a slice that the client returns are taken to be non-nil. Writing to
  the log is left out: it changes neither a result nor a call to the client.
\<close>

subsection \<open>Types of the Gitea client library\<close>

type_synonym time = int  \<comment> \<open>an instant, in nanoseconds\<close>

type_synonym client_error = string  \<comment> \<open>an error value of the client, by its \<^verbatim>\<open>Error()\<close> text\<close>

record Response =
  StatusCode :: int

record Repository =
  Repository_Archived :: bool
  Repository_CloneURL :: string
  Repository_Fork :: bool
  Repository_HTMLURL :: string
  Repository_HasIssues :: bool
  Repository_HasProjects :: bool
  Repository_HasWiki :: bool
  Repository_ID :: int
  Repository_Name :: string
  Repository_OpenIssues :: int
  Repository_Private :: bool
  Repository_SSHURL :: string
  Repository_Stars :: int

record CreateRepoOption =
  CreateRepoOption_Name :: string
  CreateRepoOption_Private :: bool

record CreateForkOption =
  CreateForkOption_Organization :: "string option"

record Hook =
  Hook_Config :: "(string \<times> string) list"

record CreateHookOption =
  CreateHookOption_Type :: string
  CreateHookOption_Config :: "(string \<times> string) list"
  CreateHookOption_Events :: "string list"
  CreateHookOption_Active :: bool

record User =
  User_UserName :: string
  User_FullName :: string
  User_Email :: string
  User_AvatarURL :: string

record PRBranchInfo =
  PRBranchInfo_Sha :: string

record PullRequest =
  PullRequest_Index :: int
  PullRequest_URL :: string
  PullRequest_Poster :: "User option"
  PullRequest_HasMerged :: bool
  PullRequest_Mergeable :: bool
  PullRequest_Merged :: "time option"
  PullRequest_MergedCommitID :: "string option"
  PullRequest_Title :: string
  PullRequest_Body :: string
  PullRequest_State :: string
  PullRequest_Head :: "PRBranchInfo option"

record ListPullRequestsOptions =
  ListOptions_Page :: int
  ListOptions_PageSize :: int

record Label =
  Label_Name :: string
  Label_Color :: string
  Label_URL :: string

record Issue =
  Issue_ID :: int
  Issue_State :: string
  Issue_Labels :: "Label list"
  Issue_Assignees :: "User list"
  Issue_Title :: string
  Issue_Body :: string
  Issue_PullRequest :: "unit option"
  Issue_Poster :: "User option"
  Issue_Created :: time
  Issue_Updated :: time
  Issue_Closed :: "time option"

record Status =
  Status_ID :: int
  Status_State :: string
  Status_TargetURL :: string
  Status_Description :: string
  Status_URL :: string
  Status_Context :: string

record Release =
  Release_ID :: int
  Release_TagName :: string
  Release_Title :: string
  Release_Note :: string
  Release_URL :: string

record CreateReleaseOption =
  CreateReleaseOption_TagName :: string
  CreateReleaseOption_Title :: string
  CreateReleaseOption_Note :: string
  CreateReleaseOption_IsDraft :: bool
  CreateReleaseOption_IsPrerelease :: bool

record EditReleaseOption =
  EditReleaseOption_TagName :: string
  EditReleaseOption_Title :: string
  EditReleaseOption_Note :: string
  EditReleaseOption_IsDraft :: "bool option"
  EditReleaseOption_IsPrerelease :: "bool option"

subsection \<open>The provider-neutral types (the fields the adapter sets or reads)\<close>

record GitRepository =
  GitRepository_AllowMergeCommit :: bool
  GitRepository_Archived :: bool
  GitRepository_CloneURL :: string
  GitRepository_Fork :: bool
  GitRepository_HTMLURL :: string
  GitRepository_HasIssues :: bool
  GitRepository_HasProjects :: bool
  GitRepository_HasWiki :: bool
  GitRepository_ID :: int
  GitRepository_Name :: string
  GitRepository_OpenIssueCount :: int
  GitRepository_Private :: bool
  GitRepository_SSHURL :: string
  GitRepository_Stars :: int

record GitUser =
  GitUser_URL :: string
  GitUser_Login :: string
  GitUser_Name :: string
  GitUser_Email :: string
  GitUser_AvatarURL :: string

record GitPullRequest =
  GitPullRequest_URL :: string
  GitPullRequest_Owner :: string
  GitPullRequest_Repo :: string
  GitPullRequest_Number :: "int option"
  GitPullRequest_Author :: "GitUser option"
  GitPullRequest_Merged :: "bool option"
  GitPullRequest_Mergeable :: "bool option"
  GitPullRequest_MergedAt :: "time option"
  GitPullRequest_MergeCommitSHA :: "string option"
  GitPullRequest_Title :: string
  GitPullRequest_Body :: string
  GitPullRequest_State :: "string option"
  GitPullRequest_LastCommitSha :: string

record GitLabel =
  GitLabel_Name :: string
  GitLabel_Color :: string
  GitLabel_URL :: string

record GitIssue =
  GitIssue_Number :: "int option"
  GitIssue_URL :: string
  GitIssue_State :: "string option"
  GitIssue_Title :: string
  GitIssue_Body :: string
  GitIssue_IsPullRequest :: bool
  GitIssue_Labels :: "GitLabel list"
  GitIssue_User :: "GitUser option"
  GitIssue_Assignees :: "GitUser list"
  GitIssue_CreatedAt :: "time option"
  GitIssue_UpdatedAt :: "time option"
  GitIssue_ClosedAt :: "time option"

record GitRepoStatus =
  GitRepoStatus_ID :: string
  GitRepoStatus_Context :: string
  GitRepoStatus_URL :: string
  GitRepoStatus_TargetURL :: string
  GitRepoStatus_State :: string
  GitRepoStatus_Description :: string

record GitRelease =
  GitRelease_Name :: string
  GitRelease_TagName :: string
  GitRelease_Body :: string
  GitRelease_URL :: string

record GitWebHookArguments =
  GitWebHookArguments_Owner :: string
  GitWebHookArguments_Repo :: "GitRepository option"
  GitWebHookArguments_URL :: string
  GitWebHookArguments_Secret :: string

subsection \<open>Errors and outcomes\<close>

text \<open>
  An error the adapter returns is either the client's error value handed on unchanged
  (\<open>ClientError\<close>) or a fresh value built by \<^verbatim>\<open>fmt.Errorf\<close>, kept as the format string
  with its arguments in order. An error argument may be \<^verbatim>\<open>nil\<close> (\<open>Err None\<close>).
\<close>

datatype fmtarg =
    Str string
  | Err "client_error option"
  | PRArg GitPullRequest
  | HookArg CreateHookOption

datatype error = ClientError client_error | Errorf string "fmtarg list"

text \<open>A call either returns or panics on a nil pointer dereference.\<close>

datatype 'a outcome = Return 'a | Panic

subsection \<open>The client, the clock and the world\<close>

datatype call =
    ListMyReposCall
  | ListOrgReposCall string
  | CreateOrgRepoCall string CreateRepoOption
  | CreateRepoCall CreateRepoOption
  | CreateForkCall string string CreateForkOption
  | GetRepoCall string string
  | ListRepoHooksCall string string
  | CreateRepoHookCall string string CreateHookOption
  | ListRepoPullRequestsCall string string ListPullRequestsOptions
  | GetIssueCall string string int
  | ListStatusesCall string string string
  | GetReleaseByTagCall string string string
  | CreateReleaseCall string string CreateReleaseOption
  | EditReleaseCall string string int EditReleaseOption
  | SleepCall int

text \<open>
  Every client method returns Go's triple (value, response, error) and may change the
  backend state. The list options that the source always passes empty are left out.
\<close>

record 's gitea_Client =
  gitea_ListMyRepos :: "'s \<Rightarrow> (Repository list \<times> Response option \<times> client_error option) \<times> 's"
  gitea_ListOrgRepos :: "string \<Rightarrow> 's \<Rightarrow> (Repository list \<times> Response option \<times> client_error option) \<times> 's"
  gitea_CreateOrgRepo :: "string \<Rightarrow> CreateRepoOption \<Rightarrow> 's
      \<Rightarrow> (Repository option \<times> Response option \<times> client_error option) \<times> 's"
  gitea_CreateRepo :: "CreateRepoOption \<Rightarrow> 's
      \<Rightarrow> (Repository option \<times> Response option \<times> client_error option) \<times> 's"
  gitea_CreateFork :: "string \<Rightarrow> string \<Rightarrow> CreateForkOption \<Rightarrow> 's
      \<Rightarrow> (Repository option \<times> Response option \<times> client_error option) \<times> 's"
  gitea_GetRepo :: "string \<Rightarrow> string \<Rightarrow> 's
      \<Rightarrow> (Repository option \<times> Response option \<times> client_error option) \<times> 's"
  gitea_ListRepoHooks :: "string \<Rightarrow> string \<Rightarrow> 's
      \<Rightarrow> (Hook list \<times> Response option \<times> client_error option) \<times> 's"
  gitea_CreateRepoHook :: "string \<Rightarrow> string \<Rightarrow> CreateHookOption \<Rightarrow> 's
      \<Rightarrow> (Hook option \<times> Response option \<times> client_error option) \<times> 's"
  gitea_ListRepoPullRequests :: "string \<Rightarrow> string \<Rightarrow> ListPullRequestsOptions \<Rightarrow> 's
      \<Rightarrow> (PullRequest list \<times> Response option \<times> client_error option) \<times> 's"
  gitea_GetIssue :: "string \<Rightarrow> string \<Rightarrow> int \<Rightarrow> 's
      \<Rightarrow> (Issue option \<times> Response option \<times> client_error option) \<times> 's"
  gitea_ListStatuses :: "string \<Rightarrow> string \<Rightarrow> string \<Rightarrow> 's
      \<Rightarrow> (Status list \<times> Response option \<times> client_error option) \<times> 's"
  gitea_GetReleaseByTag :: "string \<Rightarrow> string \<Rightarrow> string \<Rightarrow> 's
      \<Rightarrow> (Release option \<times> Response option \<times> client_error option) \<times> 's"
  gitea_CreateRelease :: "string \<Rightarrow> string \<Rightarrow> CreateReleaseOption \<Rightarrow> 's
      \<Rightarrow> (Release option \<times> Response option \<times> client_error option) \<times> 's"
  gitea_EditRelease :: "string \<Rightarrow> string \<Rightarrow> int \<Rightarrow> EditReleaseOption \<Rightarrow> 's
      \<Rightarrow> (Release option \<times> Response option \<times> client_error option) \<times> 's"

text \<open>Go's \<^verbatim>\<open>time.Now\<close> and \<^verbatim>\<open>time.Sleep\<close>, on the same state.\<close>

record 's Clock =
  time_Now :: "'s \<Rightarrow> time"
  time_Sleep :: "int \<Rightarrow> 's \<Rightarrow> 's"

definition Second :: int where
  "Second = 1000000000"

definition Minute :: int where
  "Minute = 60 * Second"

record 's GiteaProvider =
  Username :: string
  Client :: "'s gitea_Client"
  Server_URL :: string

text \<open>
  The world is the backend state with the trace of the calls made so far: \<open>invoke\<close>
  runs a client method (or a sleep) and appends the call to the trace.
\<close>

record 's world =
  backend :: 's
  calls :: "call list"

definition invoke :: "call \<Rightarrow> ('s \<Rightarrow> 'a \<times> 's) \<Rightarrow> 's world \<Rightarrow> 'a \<times> 's world" where
  "invoke k f w =
     (case f (backend w) of (r, s') \<Rightarrow> (r, \<lparr>backend = s', calls = calls w @ [k]\<rparr>))"

subsection \<open>Helpers of the Go library\<close>

text \<open>\<^verbatim>\<open>strings.Contains(s, sub)\<close>.\<close>

fun Contains :: "string \<Rightarrow> string \<Rightarrow> bool" where
  "Contains [] sub = (sub = [])"
| "Contains (c # s) sub = (take (length sub) (c # s) = sub \<or> Contains s sub)"

text \<open>\<^verbatim>\<open>strconv.Itoa\<close> and \<^verbatim>\<open>fmt.Sprint\<close> of an integer: the decimal digits.\<close>

fun digits :: "nat \<Rightarrow> string" where
  "digits n = (if n < 10 then [''0123456789'' ! n]
               else digits (n div 10) @ [''0123456789'' ! (n mod 10)])"

declare digits.simps [simp del]

definition Itoa :: "int \<Rightarrow> string" where
  "Itoa i = (if i < 0 then CHR ''-'' # digits (nat (- i)) else digits (nat i))"

subsection \<open>ListCommitStatus\<close>

definition toGitRepoStatus :: "Status \<Rightarrow> GitRepoStatus" where
  "toGitRepoStatus result =
     \<lparr>GitRepoStatus_ID = Itoa (Status_ID result),
      GitRepoStatus_Context = Status_Context result,
      GitRepoStatus_URL = Status_URL result,
      GitRepoStatus_TargetURL = Status_TargetURL result,
      GitRepoStatus_State = Status_State result,
      GitRepoStatus_Description = Status_Description result\<rparr>"

definition ListCommitStatus ::
  "'s GiteaProvider \<Rightarrow> string \<Rightarrow> string \<Rightarrow> string \<Rightarrow> 's world
     \<Rightarrow> (GitRepoStatus list \<times> error option) \<times> 's world" where
  "ListCommitStatus p org repo sha w =
     (let answer = [] in
      case invoke (ListStatusesCall org repo sha) (gitea_ListStatuses (Client p) org repo sha) w of
        ((results, _, err), w1) \<Rightarrow>
          if err \<noteq> None
          then ((answer, Some (Errorf ''Could not find a status for repository %s/%s with ref %s''
                                  [Str org, Str repo, Str sha])), w1)
          else ((foldl (\<lambda>answer result. answer @ [toGitRepoStatus result]) answer results, None), w1))"

subsection \<open>Repositories\<close>

definition toGiteaRepo :: "string \<Rightarrow> Repository \<Rightarrow> GitRepository" where
  "toGiteaRepo name repo =
     \<lparr>GitRepository_AllowMergeCommit = True,
      GitRepository_Archived = Repository_Archived repo,
      GitRepository_CloneURL = Repository_CloneURL repo,
      GitRepository_Fork = Repository_Fork repo,
      GitRepository_HTMLURL = Repository_HTMLURL repo,
      GitRepository_HasIssues = Repository_HasIssues repo,
      GitRepository_HasProjects = Repository_HasProjects repo,
      GitRepository_HasWiki = Repository_HasWiki repo,
      GitRepository_ID = Repository_ID repo,
      GitRepository_Name = name,
      GitRepository_OpenIssueCount = Repository_OpenIssues repo,
      GitRepository_Private = Repository_Private repo,
      GitRepository_SSHURL = Repository_SSHURL repo,
      GitRepository_Stars = Repository_Stars repo\<rparr>"

definition ListRepositories ::
  "'s GiteaProvider \<Rightarrow> string \<Rightarrow> 's world \<Rightarrow> (GitRepository list \<times> error option) \<times> 's world" where
  "ListRepositories p org w =
     (let answer = [] in
      if org = ''''
      then (case invoke ListMyReposCall (gitea_ListMyRepos (Client p)) w of
              ((repos, _, err), w1) \<Rightarrow>
                (case err of
                   Some e \<Rightarrow> ((answer, Some (ClientError e)), w1)
                 | None \<Rightarrow>
                     ((foldl (\<lambda>answer repo. answer @ [toGiteaRepo (Repository_Name repo) repo])
                         answer repos, None), w1)))
      else (case invoke (ListOrgReposCall org) (gitea_ListOrgRepos (Client p) org) w of
              ((repos, _, err), w1) \<Rightarrow>
                (case err of
                   Some e \<Rightarrow> ((answer, Some (ClientError e)), w1)
                 | None \<Rightarrow>
                     ((foldl (\<lambda>answer repo. answer @ [toGiteaRepo (Repository_Name repo) repo])
                         answer repos, None), w1))))"

text \<open>
  CreateRepository: the org-scoped call is guarded by \<^verbatim>\<open>len(org) != 0\<close>; the user-scoped
  call follows it without an \<^verbatim>\<open>else\<close> and assigns \<^verbatim>\<open>repo\<close> and \<^verbatim>\<open>err\<close> again.
  \<^verbatim>\<open>toGiteaRepo\<close> reads through the pointer, so a nil repository with a nil error panics.
\<close>

definition CreateRepository ::
  "'s GiteaProvider \<Rightarrow> string \<Rightarrow> string \<Rightarrow> bool \<Rightarrow> 's world
     \<Rightarrow> (GitRepository option \<times> error option) outcome \<times> 's world" where
  "CreateRepository p org name private w =
     (let options = \<lparr>CreateRepoOption_Name = name, CreateRepoOption_Private = private\<rparr>;
          r0 = (if length org \<noteq> 0
                then invoke (CreateOrgRepoCall org options)
                       (gitea_CreateOrgRepo (Client p) org options) w
                else ((None, None, None), w))
      in case r0 of ((repo0, _, err0), w0) \<Rightarrow>
         (case invoke (CreateRepoCall options) (gitea_CreateRepo (Client p) options) w0 of
            ((repo, _, err), w1) \<Rightarrow>
              (case err of
                 Some e \<Rightarrow>
                   (Return (None, Some (Errorf ''Failed to create repository %s/%s due to: %s''
                                          [Str org, Str name, Err (Some e)])), w1)
               | None \<Rightarrow>
                   (case repo of
                      None \<Rightarrow> (Panic, w1)
                    | Some r \<Rightarrow> (Return (Some (toGiteaRepo name r), None), w1)))))"

text \<open>
  The polling loop of ForkRepository. It has no bound of its own: it ends when the
  repository is there or when the clock has passed the deadline, so it is a partial
  function, \<open>None\<close> meaning that it never returns. \<open>Inr\<close> is the \<^verbatim>\<open>break\<close> with the
  repository found, \<open>Inl\<close> the return of the timeout error.
\<close>

partial_function (option) waitForFork ::
  "'s Clock \<Rightarrow> 's GiteaProvider \<Rightarrow> string \<Rightarrow> string \<Rightarrow> time \<Rightarrow> 's world
     \<Rightarrow> ((error + Repository) \<times> 's world) option" where
  "waitForFork clk p owner name deadline w =
     (case invoke (SleepCall (5 * Second)) (\<lambda>s. ((), time_Sleep clk (5 * Second) s)) w of
        (_, w1) \<Rightarrow>
          (case invoke (GetRepoCall owner name) (gitea_GetRepo (Client p) owner name) w1 of
             ((repo, _, err), w2) \<Rightarrow>
               (case repo of
                  Some r \<Rightarrow>
                    if err = None then Some (Inr r, w2)
                    else if time_Now clk (backend w2) > deadline
                    then Some (Inl (Errorf ''Gave up waiting for Repository %s/%s to appear: %s''
                                      [Str owner, Str name, Err err]), w2)
                    else waitForFork clk p owner name deadline w2
                | None \<Rightarrow>
                    if time_Now clk (backend w2) > deadline
                    then Some (Inl (Errorf ''Gave up waiting for Repository %s/%s to appear: %s''
                                      [Str owner, Str name, Err err]), w2)
                    else waitForFork clk p owner name deadline w2)))"

declare waitForFork.simps [code]

definition ForkRepository ::
  "'s Clock \<Rightarrow> 's GiteaProvider \<Rightarrow> string \<Rightarrow> string \<Rightarrow> string \<Rightarrow> 's world
     \<Rightarrow> ((GitRepository option \<times> error option) outcome \<times> 's world) option" where
  "ForkRepository clk p originalOrg name destinationOrg w =
     (let repoConfig = \<lparr>CreateForkOption_Organization = Some destinationOrg\<rparr> in
      case invoke (CreateForkCall originalOrg name repoConfig)
             (gitea_CreateFork (Client p) originalOrg name repoConfig) w of
        ((repo, _, err), w1) \<Rightarrow>
          (case err of
             Some e \<Rightarrow>
               (let msg = (if destinationOrg \<noteq> '''' then '' to '' @ destinationOrg else '''');
                    owner = (if destinationOrg = '''' then Username p else destinationOrg)
                in if Contains e ''try again later''
                   then (let start = time_Now clk (backend w1);
                             deadline = start + Minute
                         in case waitForFork clk p owner name deadline w1 of
                              None \<Rightarrow> None
                            | Some (Inl timeout, w2) \<Rightarrow> Some (Return (None, Some timeout), w2)
                            | Some (Inr r, w2) \<Rightarrow> Some (Return (Some (toGiteaRepo name r), None), w2))
                   else Some (Return (None, Some (Errorf ''Failed to fork repository %s/%s%s due to: %s''
                                                    [Str originalOrg, Str name, Str msg, Err (Some e)])), w1))
           | None \<Rightarrow>
               (case repo of
                  None \<Rightarrow> Some (Panic, w1)
                | Some r \<Rightarrow> Some (Return (Some (toGiteaRepo name r), None), w1))))"

subsection \<open>CreateWebHook\<close>

text \<open>
  \<^verbatim>\<open>hook.Config["url"]\<close> on a Go map: a missing key reads as the empty string.
\<close>

definition configURL :: "Hook \<Rightarrow> string" where
  "configURL hook = (case map_of (Hook_Config hook) ''url'' of None \<Rightarrow> '''' | Some s \<Rightarrow> s)"

text \<open>The loop over the listed hooks: true when it returns early on a hook with the URL.\<close>

fun alreadyRegistered :: "Hook list \<Rightarrow> string \<Rightarrow> bool" where
  "alreadyRegistered [] webhookUrl = False"
| "alreadyRegistered (hook # hooks) webhookUrl =
     (if configURL hook = webhookUrl then True else alreadyRegistered hooks webhookUrl)"

text \<open>
  Both precondition checks test \<^verbatim>\<open>repo == ""\<close>, as the source does; \<^verbatim>\<open>data.Repo\<close> is a
  pointer that is read without a nil check.
\<close>

definition CreateWebHook ::
  "'s GiteaProvider \<Rightarrow> GitWebHookArguments \<Rightarrow> 's world \<Rightarrow> error option outcome \<times> 's world" where
  "CreateWebHook p data w =
     (let owner = (if GitWebHookArguments_Owner data = '''' then Username p
                   else GitWebHookArguments_Owner data)
      in case GitWebHookArguments_Repo data of
           None \<Rightarrow> (Panic, w)
         | Some r \<Rightarrow>
             (let repo = GitRepository_Name r in
              if repo = '''' then (Return (Some (Errorf ''Missing property Repo'' [])), w)
              else let webhookUrl = GitWebHookArguments_URL data in
              if repo = '''' then (Return (Some (Errorf ''Missing property URL'' [])), w)
              else case invoke (ListRepoHooksCall owner repo)
                          (gitea_ListRepoHooks (Client p) owner repo) w of
                ((hooks, _, err), w1) \<Rightarrow>
                  (case err of
                     Some e \<Rightarrow> (Return (Some (ClientError e)), w1)
                   | None \<Rightarrow>
                       if alreadyRegistered hooks webhookUrl then (Return None, w1)
                       else
                         (let config = [(''url'', webhookUrl), (''content_type'', ''json'')];
                              config = (if GitWebHookArguments_Secret data \<noteq> ''''
                                        then AList.update ''secret'' (GitWebHookArguments_Secret data) config
                                        else config);
                              hook = \<lparr>CreateHookOption_Type = ''gitea'',
                                      CreateHookOption_Config = config,
                                      CreateHookOption_Events = [''create'', ''push'', ''pull_request''],
                                      CreateHookOption_Active = True\<rparr>
                          in case invoke (CreateRepoHookCall owner repo hook)
                                    (gitea_CreateRepoHook (Client p) owner repo hook) w1 of
                               ((_, _, err), w2) \<Rightarrow>
                                 (case err of
                                    Some e \<Rightarrow>
                                      (Return (Some (Errorf
                                         ''Failed to create webhook for %s/%s with %#v due to: %s''
                                         [Str owner, Str repo, HookArg hook, Err (Some e)])), w2)
                                  | None \<Rightarrow> (Return None, w2))))))"

subsection \<open>Pull requests\<close>

text \<open>\<^verbatim>\<open>source.Poster\<close> is a pointer read without a nil check.\<close>

definition updatePullRequest :: "GitPullRequest \<Rightarrow> PullRequest \<Rightarrow> GitPullRequest outcome" where
  "updatePullRequest pr source =
     (case PullRequest_Poster source of
        None \<Rightarrow> Panic
      | Some poster \<Rightarrow>
          Return (pr\<lparr>GitPullRequest_Author :=
                        Some \<lparr>GitUser_URL = '''', GitUser_Login = User_UserName poster,
                              GitUser_Name = '''', GitUser_Email = '''', GitUser_AvatarURL = ''''\<rparr>,
                      GitPullRequest_Merged := Some (PullRequest_HasMerged source),
                      GitPullRequest_Mergeable := Some (PullRequest_Mergeable source),
                      GitPullRequest_MergedAt := PullRequest_Merged source,
                      GitPullRequest_MergeCommitSHA := PullRequest_MergedCommitID source,
                      GitPullRequest_Title := PullRequest_Title source,
                      GitPullRequest_Body := PullRequest_Body source,
                      GitPullRequest_State := Some (PullRequest_State source),
                      GitPullRequest_LastCommitSha :=
                        (case PullRequest_Head source of
                           Some head \<Rightarrow> PRBranchInfo_Sha head
                         | None \<Rightarrow> '''')\<rparr>))"

definition toPullRequest :: "string \<Rightarrow> string \<Rightarrow> PullRequest \<Rightarrow> GitPullRequest outcome" where
  "toPullRequest owner repo pr =
     (let id = PullRequest_Index pr;
          answer = \<lparr>GitPullRequest_URL = PullRequest_URL pr,
                    GitPullRequest_Owner = owner,
                    GitPullRequest_Repo = repo,
                    GitPullRequest_Number = Some id,
                    GitPullRequest_Author = None,
                    GitPullRequest_Merged = None,
                    GitPullRequest_Mergeable = None,
                    GitPullRequest_MergedAt = None,
                    GitPullRequest_MergeCommitSHA = None,
                    GitPullRequest_Title = '''',
                    GitPullRequest_Body = '''',
                    GitPullRequest_State = None,
                    GitPullRequest_LastCommitSha = ''''\<rparr>
      in updatePullRequest answer pr)"

text \<open>The inner loop of ListOpenPullRequests: append the conversion of every entry.\<close>

fun appendPullRequests ::
  "string \<Rightarrow> string \<Rightarrow> GitPullRequest list \<Rightarrow> PullRequest list \<Rightarrow> GitPullRequest list outcome" where
  "appendPullRequests owner repo answer [] = Return answer"
| "appendPullRequests owner repo answer (pr # prs) =
     (case toPullRequest owner repo pr of
        Panic \<Rightarrow> Panic
      | Return g \<Rightarrow> appendPullRequests owner repo (answer @ [g]) prs)"

text \<open>
  The outer loop, from the state in which \<^verbatim>\<open>opt\<close> and \<^verbatim>\<open>answer\<close> are. It ends only when
  the client fails or returns a short or empty page, so it is a partial function.
  \<^verbatim>\<open>pageSize\<close> is a constant of the package declared in another file; it is a parameter.
\<close>

partial_function (option) listPullRequestPages ::
  "int \<Rightarrow> 's GiteaProvider \<Rightarrow> string \<Rightarrow> string \<Rightarrow> ListPullRequestsOptions
     \<Rightarrow> GitPullRequest list \<Rightarrow> 's world
     \<Rightarrow> ((GitPullRequest list \<times> error option) outcome \<times> 's world) option" where
  "listPullRequestPages pageSize p owner repo opt answer w =
     (case invoke (ListRepoPullRequestsCall owner repo opt)
             (gitea_ListRepoPullRequests (Client p) owner repo opt) w of
        ((prs, _, err), w1) \<Rightarrow>
          (case err of
             Some e \<Rightarrow> Some (Return (answer, Some (ClientError e)), w1)
           | None \<Rightarrow>
               (case appendPullRequests owner repo answer prs of
                  Panic \<Rightarrow> Some (Panic, w1)
                | Return answer' \<Rightarrow>
                    if int (length prs) < pageSize \<or> length prs = 0
                    then Some (Return (answer', None), w1)
                    else listPullRequestPages pageSize p owner repo
                           (opt\<lparr>ListOptions_Page := ListOptions_Page opt + 1\<rparr>) answer' w1)))"

declare listPullRequestPages.simps [code]

definition ListOpenPullRequests ::
  "int \<Rightarrow> 's GiteaProvider \<Rightarrow> string \<Rightarrow> string \<Rightarrow> 's world
     \<Rightarrow> ((GitPullRequest list \<times> error option) outcome \<times> 's world) option" where
  "ListOpenPullRequests pageSize p owner repo w =
     (let opt = \<lparr>ListOptions_Page = 0, ListOptions_PageSize = 0\<rparr>;
          answer = []
      in listPullRequestPages pageSize p owner repo opt answer w)"

subsection \<open>PullRequestLastCommitStatus\<close>

text \<open>The loop over the statuses: the first state text that is not empty.\<close>

fun firstStatusText :: "Status list \<Rightarrow> string option" where
  "firstStatusText [] = None"
| "firstStatusText (result # results) =
     (let text = Status_State result in
      if text \<noteq> '''' then Some text else firstStatusText results)"

definition PullRequestLastCommitStatus ::
  "'s GiteaProvider \<Rightarrow> GitPullRequest \<Rightarrow> 's world \<Rightarrow> (string \<times> error option) \<times> 's world" where
  "PullRequestLastCommitStatus p pr w =
     (let ref = GitPullRequest_LastCommitSha pr in
      if ref = ''''
      then (('''', Some (Errorf ''Missing String for LastCommitSha %#v'' [PRArg pr])), w)
      else case invoke (ListStatusesCall (GitPullRequest_Owner pr) (GitPullRequest_Repo pr) ref)
                  (gitea_ListStatuses (Client p) (GitPullRequest_Owner pr) (GitPullRequest_Repo pr) ref) w of
        ((results, _, err), w1) \<Rightarrow>
          (case err of
             Some e \<Rightarrow> (('''', Some (ClientError e)), w1)
           | None \<Rightarrow>
               (case firstStatusText results of
                  Some text \<Rightarrow> ((text, None), w1)
                | None \<Rightarrow>
                    (('''', Some (Errorf ''Could not find a status for repository %s/%s with ref %s''
                                   [Str (GitPullRequest_Owner pr), Str (GitPullRequest_Repo pr), Str ref])),
                     w1))))"

subsection \<open>Issues\<close>

definition toGiteaLabel :: "Label \<Rightarrow> GitLabel" where
  "toGiteaLabel label =
     \<lparr>GitLabel_Name = Label_Name label, GitLabel_Color = Label_Color label,
      GitLabel_URL = Label_URL label\<rparr>"

definition toGiteaUser :: "string \<Rightarrow> User \<Rightarrow> GitUser" where
  "toGiteaUser serverURL user =
     \<lparr>GitUser_URL = serverURL @ ''/'' @ User_UserName user,
      GitUser_Login = User_UserName user,
      GitUser_Name = User_FullName user,
      GitUser_Email = User_Email user,
      GitUser_AvatarURL = User_AvatarURL user\<rparr>"

text \<open>
  \<^verbatim>\<open>util.UrlJoin\<close> belongs to another package of the repository; it is a parameter.
\<close>

definition IssueURL ::
  "(string list \<Rightarrow> string) \<Rightarrow> 's GiteaProvider \<Rightarrow> string \<Rightarrow> string \<Rightarrow> int \<Rightarrow> bool \<Rightarrow> string" where
  "IssueURL UrlJoin p org name number isPull =
     (let serverPrefix = Server_URL p;
          serverPrefix = (if \<not> Contains serverPrefix ''://'' then ''https://'' @ serverPrefix
                          else serverPrefix);
          path = (if isPull then ''pulls'' else ''issues'')
      in UrlJoin [serverPrefix, org, name, path, Itoa number])"

text \<open>\<^verbatim>\<open>i.Poster\<close> is a pointer that \<^verbatim>\<open>toGiteaUser\<close> reads without a nil check.\<close>

definition fromGiteaIssue ::
  "(string list \<Rightarrow> string) \<Rightarrow> 's GiteaProvider \<Rightarrow> string \<Rightarrow> string \<Rightarrow> Issue
     \<Rightarrow> (GitIssue option \<times> error option) outcome" where
  "fromGiteaIssue UrlJoin p org name i =
     (let state = Issue_State i;
          labels = foldl (\<lambda>labels label. labels @ [toGiteaLabel label]) [] (Issue_Labels i);
          assignees = foldl (\<lambda>assignees assignee. assignees @ [toGiteaUser (Server_URL p) assignee])
                        [] (Issue_Assignees i);
          number = Issue_ID i
      in case Issue_Poster i of
           None \<Rightarrow> Panic
         | Some poster \<Rightarrow>
             Return (Some \<lparr>GitIssue_Number = Some number,
                           GitIssue_URL = IssueURL UrlJoin p org name number False,
                           GitIssue_State = Some state,
                           GitIssue_Title = Issue_Title i,
                           GitIssue_Body = Issue_Body i,
                           GitIssue_IsPullRequest = (Issue_PullRequest i \<noteq> None),
                           GitIssue_Labels = labels,
                           GitIssue_User = Some (toGiteaUser (Server_URL p) poster),
                           GitIssue_Assignees = assignees,
                           GitIssue_CreatedAt = Some (Issue_Created i),
                           GitIssue_UpdatedAt = Some (Issue_Updated i),
                           GitIssue_ClosedAt = Issue_Closed i\<rparr>, None))"

definition GetIssue ::
  "(string list \<Rightarrow> string) \<Rightarrow> 's GiteaProvider \<Rightarrow> string \<Rightarrow> string \<Rightarrow> int \<Rightarrow> 's world
     \<Rightarrow> (GitIssue option \<times> error option) outcome \<times> 's world" where
  "GetIssue UrlJoin p org name number w =
     (case invoke (GetIssueCall org name number) (gitea_GetIssue (Client p) org name number) w of
        ((i, resp, err), w1) \<Rightarrow>
          (case err of
             Some e \<Rightarrow>
               (case resp of
                  Some r \<Rightarrow>
                    if StatusCode r = 404 then (Return (None, None), w1)
                    else (Return (None, Some (ClientError e)), w1)
                | None \<Rightarrow> (Return (None, Some (ClientError e)), w1))
           | None \<Rightarrow>
               (case i of
                  None \<Rightarrow> (Panic, w1)
                | Some issue \<Rightarrow> (fromGiteaIssue UrlJoin p org name issue, w1))))"

subsection \<open>UpdateRelease\<close>

text \<open>
  The function writes \<^verbatim>\<open>releaseInfo.URL\<close> through the pointer it is given, so the model
  returns the release info next to the error. The last \<^verbatim>\<open>return err\<close> returns the error
  of the fetch: the error of the edit is a variable of the inner block.
\<close>

definition UpdateRelease ::
  "'s GiteaProvider \<Rightarrow> string \<Rightarrow> string \<Rightarrow> string \<Rightarrow> GitRelease \<Rightarrow> 's world
     \<Rightarrow> (error option \<times> GitRelease) \<times> 's world" where
  "UpdateRelease p owner repo tag releaseInfo w =
     (case invoke (GetReleaseByTagCall owner repo tag)
             (gitea_GetReleaseByTag (Client p) owner repo tag) w of
        ((release, resp, err), w1) \<Rightarrow>
          if err \<noteq> None \<and> (case resp of None \<Rightarrow> True | Some r \<Rightarrow> StatusCode r \<noteq> 404)
          then ((map_option ClientError err, releaseInfo), w1)
          else
            (case release of
               None \<Rightarrow>
                 (let createRelease =
                        \<lparr>CreateReleaseOption_TagName = GitRelease_TagName releaseInfo,
                         CreateReleaseOption_Title = GitRelease_Name releaseInfo,
                         CreateReleaseOption_Note = GitRelease_Body releaseInfo,
                         CreateReleaseOption_IsDraft = False,
                         CreateReleaseOption_IsPrerelease = False\<rparr>
                  in case invoke (CreateReleaseCall owner repo createRelease)
                            (gitea_CreateRelease (Client p) owner repo createRelease) w1 of
                       ((_, _, err), w2) \<Rightarrow> ((map_option ClientError err, releaseInfo), w2))
             | Some release \<Rightarrow>
                 (let editRelease =
                        \<lparr>EditReleaseOption_TagName = Release_TagName release,
                         EditReleaseOption_Title = Release_Title release,
                         EditReleaseOption_Note = Release_Note release,
                         EditReleaseOption_IsDraft = Some False,
                         EditReleaseOption_IsPrerelease = Some False\<rparr>;
                      editRelease =
                        (if EditReleaseOption_Title editRelease = '''' \<and> GitRelease_Name releaseInfo \<noteq> ''''
                         then editRelease\<lparr>EditReleaseOption_Title := GitRelease_Name releaseInfo\<rparr>
                         else editRelease);
                      editRelease =
                        (if EditReleaseOption_TagName editRelease = '''' \<and> GitRelease_TagName releaseInfo \<noteq> ''''
                         then editRelease\<lparr>EditReleaseOption_TagName := GitRelease_TagName releaseInfo\<rparr>
                         else editRelease);
                      editRelease =
                        (if EditReleaseOption_Note editRelease = '''' \<and> GitRelease_Body releaseInfo \<noteq> ''''
                         then editRelease\<lparr>EditReleaseOption_Note := GitRelease_Body releaseInfo\<rparr>
                         else editRelease)
                  in case invoke (EditReleaseCall owner repo (Release_ID release) editRelease)
                            (gitea_EditRelease (Client p) owner repo (Release_ID release) editRelease) w1 of
                       ((r2, _, err2), w2) \<Rightarrow>
                         (case err2 of
                            Some e \<Rightarrow> ((Some (ClientError e), releaseInfo), w2)
                          | None \<Rightarrow>
                              ((map_option ClientError err,
                                (case r2 of
                                   Some r \<Rightarrow> releaseInfo\<lparr>GitRelease_URL := Release_URL r\<rparr>
                                 | None \<Rightarrow> releaseInfo)), w2)))))"

section \<open>Reference values and runs\<close>

text \<open>
  Values and runs that the properties speak of: the request options the adapter
  builds, written out, and what the client answers to the sequence of calls a loop makes.
  None of them is used by the model above; the lemmas relate them to it.
\<close>

subsection \<open>The options CreateWebHook and UpdateRelease build\<close>

text \<open>
  The hook option that CreateWebHook hands to \<^verbatim>\<open>CreateRepoHook\<close>, written out as a value
  of the URL and the secret (lemma \<open>CreateWebHook_created\<close> relates it to the code).
\<close>

definition newHook :: "string \<Rightarrow> string \<Rightarrow> CreateHookOption" where
  "newHook url secret =
     \<lparr>CreateHookOption_Type = ''gitea'',
      CreateHookOption_Config =
        (if secret \<noteq> '''' then [(''url'', url), (''content_type'', ''json''), (''secret'', secret)]
         else [(''url'', url), (''content_type'', ''json'')]),
      CreateHookOption_Events = [''create'', ''push'', ''pull_request''],
      CreateHookOption_Active = True\<rparr>"

text \<open>
  The options that UpdateRelease hands to \<^verbatim>\<open>CreateRelease\<close> and to \<^verbatim>\<open>EditRelease\<close>,
  written out as values of the release info and of the release found.
\<close>

definition createOption :: "GitRelease \<Rightarrow> CreateReleaseOption" where
  "createOption releaseInfo =
     \<lparr>CreateReleaseOption_TagName = GitRelease_TagName releaseInfo,
      CreateReleaseOption_Title = GitRelease_Name releaseInfo,
      CreateReleaseOption_Note = GitRelease_Body releaseInfo,
      CreateReleaseOption_IsDraft = False,
      CreateReleaseOption_IsPrerelease = False\<rparr>"

definition editOption :: "Release \<Rightarrow> GitRelease \<Rightarrow> EditReleaseOption" where
  "editOption release releaseInfo =
     \<lparr>EditReleaseOption_TagName =
        (if Release_TagName release = [] then GitRelease_TagName releaseInfo
         else Release_TagName release),
      EditReleaseOption_Title =
        (if Release_Title release = [] then GitRelease_Name releaseInfo
         else Release_Title release),
      EditReleaseOption_Note =
        (if Release_Note release = [] then GitRelease_Body releaseInfo
         else Release_Note release),
      EditReleaseOption_IsDraft = Some False,
      EditReleaseOption_IsPrerelease = Some False\<rparr>"

subsection \<open>The pages a run of ListOpenPullRequests asks for\<close>

text \<open>
  The stop test of the loop of ListOpenPullRequests, and what the client answers to
  \<open>k\<close> requests in a row for the pages \<open>page\<close>, \<open>page + 1\<close>, ... from the backend state
  \<open>s\<close>, with the state it leaves: the pages a run fetches, told apart from the loop.
\<close>

definition shortPage :: "int \<Rightarrow> PullRequest list \<Rightarrow> bool" where
  "shortPage pageSize prs \<longleftrightarrow> int (length prs) < pageSize \<or> length prs = 0"

definition pageRequest :: "int \<Rightarrow> ListPullRequestsOptions" where
  "pageRequest page = \<lparr>ListOptions_Page = page, ListOptions_PageSize = 0\<rparr>"

primrec pageResponses ::
  "'s GiteaProvider \<Rightarrow> string \<Rightarrow> string \<Rightarrow> int \<Rightarrow> nat \<Rightarrow> 's
     \<Rightarrow> (PullRequest list \<times> client_error option) list \<times> 's" where
  "pageResponses p owner repo page 0 s = ([], s)"
| "pageResponses p owner repo page (Suc k) s =
     (case gitea_ListRepoPullRequests (Client p) owner repo (pageRequest page) s of
        ((prs, _, err), s1) \<Rightarrow>
          (case pageResponses p owner repo (page + 1) k s1 of
             (rs, s2) \<Rightarrow> ((prs, err) # rs, s2)))"

subsection \<open>The attempts of the polling loop of ForkRepository\<close>

text \<open>
  What \<open>k\<close> rounds of ``sleep five seconds, then fetch the repository'' yield from the
  backend state \<open>s\<close>: for every round the repository and the error of the fetch and the
  time read after it, and the state left at the end. An attempt has found the
  repository when the fetch gives a repository and no error.
\<close>

primrec pollResponses ::
  "'s Clock \<Rightarrow> 's GiteaProvider \<Rightarrow> string \<Rightarrow> string \<Rightarrow> nat \<Rightarrow> 's
     \<Rightarrow> (Repository option \<times> client_error option \<times> time) list \<times> 's" where
  "pollResponses clk p owner name 0 s = ([], s)"
| "pollResponses clk p owner name (Suc k) s =
     (case gitea_GetRepo (Client p) owner name (time_Sleep clk (5 * Second) s) of
        ((repo, _, err), s1) \<Rightarrow>
          (case pollResponses clk p owner name k s1 of
             (rs, s2) \<Rightarrow> ((repo, err, time_Now clk s1) # rs, s2)))"

definition found :: "Repository option \<times> client_error option \<times> time \<Rightarrow> bool" where
  "found r \<longleftrightarrow> fst r \<noteq> None \<and> fst (snd r) = None"

definition pollOutcome ::
  "string \<Rightarrow> string \<Rightarrow> Repository option \<times> client_error option \<times> time \<Rightarrow> error + Repository" where
  "pollOutcome owner name r =
     (case fst r of
        Some repo \<Rightarrow>
          if fst (snd r) = None then Inr repo
          else Inl (Errorf ''Gave up waiting for Repository %s/%s to appear: %s''
                      [Str owner, Str name, Err (fst (snd r))])
      | None \<Rightarrow>
          Inl (Errorf ''Gave up waiting for Repository %s/%s to appear: %s''
                 [Str owner, Str name, Err (fst (snd r))]))"

section \<open>Test doubles\<close>

text \<open>
  Concrete clients, providers and arguments on which the properties below are run.
  \<open>stubClient\<close> fails every call; each double replaces the methods it needs.
\<close>

definition stubClient :: "'s gitea_Client" where
  "stubClient =
     \<lparr>gitea_ListMyRepos = (\<lambda>s. (([], None, Some ''unexpected call''), s)),
      gitea_ListOrgRepos = (\<lambda>org s. (([], None, Some ''unexpected call''), s)),
      gitea_CreateOrgRepo = (\<lambda>org opt s. ((None, None, Some ''unexpected call''), s)),
      gitea_CreateRepo = (\<lambda>opt s. ((None, None, Some ''unexpected call''), s)),
      gitea_CreateFork = (\<lambda>owner name opt s. ((None, None, Some ''unexpected call''), s)),
      gitea_GetRepo = (\<lambda>owner name s. ((None, None, Some ''unexpected call''), s)),
      gitea_ListRepoHooks = (\<lambda>owner repo s. (([], None, Some ''unexpected call''), s)),
      gitea_CreateRepoHook = (\<lambda>owner repo opt s. ((None, None, Some ''unexpected call''), s)),
      gitea_ListRepoPullRequests = (\<lambda>owner repo opt s. (([], None, Some ''unexpected call''), s)),
      gitea_GetIssue = (\<lambda>owner repo number s. ((None, None, Some ''unexpected call''), s)),
      gitea_ListStatuses = (\<lambda>owner repo sha s. (([], None, Some ''unexpected call''), s)),
      gitea_GetReleaseByTag = (\<lambda>owner repo tag s. ((None, None, Some ''unexpected call''), s)),
      gitea_CreateRelease = (\<lambda>owner repo opt s. ((None, None, Some ''unexpected call''), s)),
      gitea_EditRelease = (\<lambda>owner repo id opt s. ((None, None, Some ''unexpected call''), s))\<rparr>"

definition provider :: "'s gitea_Client \<Rightarrow> 's GiteaProvider" where
  "provider c = \<lparr>Username = ''bot'', Client = c, Server_URL = ''https://gitea.example''\<rparr>"

definition world0 :: "'s \<Rightarrow> 's world" where
  "world0 s = \<lparr>backend = s, calls = []\<rparr>"

definition status :: "int \<Rightarrow> string \<Rightarrow> Status" where
  "status n state =
     \<lparr>Status_ID = n, Status_State = state, Status_TargetURL = '''', Status_Description = '''',
      Status_URL = '''', Status_Context = ''ci''\<rparr>"

definition refusedClient :: "unit gitea_Client" where
  "refusedClient =
     stubClient\<lparr>gitea_ListStatuses :=
       (\<lambda>owner repo sha s. (([], None, Some ''dial tcp: connection refused''), s))\<rparr>"

definition statusClient :: "unit gitea_Client" where
  "statusClient =
     stubClient\<lparr>gitea_ListStatuses :=
       (\<lambda>owner repo sha s.
          (([status 1 '''', status 2 ''pending'', status 3 ''success''], Some \<lparr>StatusCode = 200\<rparr>, None), s))\<rparr>"

definition issueClient :: "unit gitea_Client" where
  "issueClient =
     stubClient\<lparr>gitea_GetIssue :=
       (\<lambda>owner repo number s.
          if number = 7 then ((None, Some \<lparr>StatusCode = 404\<rparr>, Some ''404 Not Found''), s)
          else ((None, Some \<lparr>StatusCode = 500\<rparr>, Some ''500 Internal Server Error''), s))\<rparr>"

definition pullRequest :: "string \<Rightarrow> GitPullRequest" where
  "pullRequest sha =
     \<lparr>GitPullRequest_URL = '''', GitPullRequest_Owner = ''acme'', GitPullRequest_Repo = ''demo'',
      GitPullRequest_Number = Some 1, GitPullRequest_Author = None, GitPullRequest_Merged = None,
      GitPullRequest_Mergeable = None, GitPullRequest_MergedAt = None,
      GitPullRequest_MergeCommitSHA = None, GitPullRequest_Title = '''', GitPullRequest_Body = '''',
      GitPullRequest_State = None, GitPullRequest_LastCommitSha = sha\<rparr>"

definition repositoryOf :: "string \<Rightarrow> string \<Rightarrow> Repository" where
  "repositoryOf owner name =
     \<lparr>Repository_Archived = False, Repository_CloneURL = '''', Repository_Fork = False,
      Repository_HTMLURL = ''https://gitea.example/'' @ owner @ ''/'' @ name,
      Repository_HasIssues = True, Repository_HasProjects = False, Repository_HasWiki = False,
      Repository_ID = 1, Repository_Name = name, Repository_OpenIssues = 0,
      Repository_Private = False, Repository_SSHURL = '''', Repository_Stars = 0\<rparr>"

definition namelessClient :: "unit gitea_Client" where
  "namelessClient =
     stubClient\<lparr>gitea_ListMyRepos :=
       (\<lambda>s. (([repositoryOf ''bot'' ''''], Some \<lparr>StatusCode = 200\<rparr>, None), s))\<rparr>"

definition reposClient :: "unit gitea_Client" where
  "reposClient =
     stubClient\<lparr>gitea_ListMyRepos :=
       (\<lambda>s. (([repositoryOf ''bot'' ''alpha'', repositoryOf ''bot'' ''beta''],
               Some \<lparr>StatusCode = 200\<rparr>, None), s)),
       gitea_ListOrgRepos :=
       (\<lambda>org s. (([repositoryOf org ''gamma''], Some \<lparr>StatusCode = 200\<rparr>, None), s))\<rparr>"

text \<open>A backend that records the repositories created, as (owner, name).\<close>

definition createClient :: "(string \<times> string) list gitea_Client" where
  "createClient =
     stubClient\<lparr>gitea_CreateOrgRepo :=
       (\<lambda>org opt s. ((Some (repositoryOf org (CreateRepoOption_Name opt)),
                       Some \<lparr>StatusCode = 201\<rparr>, None),
                      s @ [(org, CreateRepoOption_Name opt)])),
       gitea_CreateRepo :=
       (\<lambda>opt s. ((Some (repositoryOf ''bot'' (CreateRepoOption_Name opt)),
                   Some \<lparr>StatusCode = 201\<rparr>, None),
                  s @ [(''bot'', CreateRepoOption_Name opt)]))\<rparr>"

text \<open>A backend that keeps the hooks of one repository and lists every hook it created.\<close>

definition hookClient :: "Hook list gitea_Client" where
  "hookClient =
     stubClient\<lparr>gitea_ListRepoHooks :=
       (\<lambda>owner repo s. ((s, Some \<lparr>StatusCode = 200\<rparr>, None), s)),
       gitea_CreateRepoHook :=
       (\<lambda>owner repo opt s.
          ((Some \<lparr>Hook_Config = CreateHookOption_Config opt\<rparr>, Some \<lparr>StatusCode = 201\<rparr>, None),
           s @ [\<lparr>Hook_Config = CreateHookOption_Config opt\<rparr>]))\<rparr>"

definition webHookArguments :: "string \<Rightarrow> string \<Rightarrow> GitWebHookArguments" where
  "webHookArguments url secret =
     \<lparr>GitWebHookArguments_Owner = ''acme'',
      GitWebHookArguments_Repo = Some (toGiteaRepo ''demo'' (repositoryOf ''acme'' ''demo'')),
      GitWebHookArguments_URL = url,
      GitWebHookArguments_Secret = secret\<rparr>"

text \<open>
  A backend that stores the releases of one repository. Asked for a tag it does not
  have, it answers as the client does on a server that knows the endpoint: the error,
  the 404 response and a release object that is allocated but empty. An edit of a
  release it does not have fails with 404 and changes nothing.
\<close>

definition emptyRelease :: Release where
  "emptyRelease =
     \<lparr>Release_ID = 0, Release_TagName = '''', Release_Title = '''', Release_Note = '''',
      Release_URL = ''''\<rparr>"

definition releaseStore :: "Release list gitea_Client" where
  "releaseStore =
     stubClient\<lparr>gitea_GetReleaseByTag :=
       (\<lambda>owner repo tag s.
          case find (\<lambda>r. Release_TagName r = tag) s of
            None \<Rightarrow> ((Some emptyRelease, Some \<lparr>StatusCode = 404\<rparr>, Some ''404 Not Found''), s)
          | Some r \<Rightarrow> ((Some r, Some \<lparr>StatusCode = 200\<rparr>, None), s)),
       gitea_CreateRelease :=
       (\<lambda>owner repo opt s.
          ((Some \<lparr>Release_ID = int (length s) + 1,
                   Release_TagName = CreateReleaseOption_TagName opt,
                   Release_Title = CreateReleaseOption_Title opt,
                   Release_Note = CreateReleaseOption_Note opt,
                   Release_URL = ''https://gitea.example/releases''\<rparr>,
            Some \<lparr>StatusCode = 201\<rparr>, None),
           s @ [\<lparr>Release_ID = int (length s) + 1,
                  Release_TagName = CreateReleaseOption_TagName opt,
                  Release_Title = CreateReleaseOption_Title opt,
                  Release_Note = CreateReleaseOption_Note opt,
                  Release_URL = ''https://gitea.example/releases''\<rparr>])),
       gitea_EditRelease :=
       (\<lambda>owner repo id opt s.
          case find (\<lambda>r. Release_ID r = id) s of
            None \<Rightarrow> ((None, Some \<lparr>StatusCode = 404\<rparr>, Some ''404 Not Found''), s)
          | Some r \<Rightarrow>
              ((Some (r\<lparr>Release_TagName := EditReleaseOption_TagName opt,
                         Release_Title := EditReleaseOption_Title opt,
                         Release_Note := EditReleaseOption_Note opt\<rparr>),
                Some \<lparr>StatusCode = 200\<rparr>, None),
               map (\<lambda>x. if Release_ID x = id
                          then x\<lparr>Release_TagName := EditReleaseOption_TagName opt,
                                 Release_Title := EditReleaseOption_Title opt,
                                 Release_Note := EditReleaseOption_Note opt\<rparr>
                          else x) s))\<rparr>"

definition releaseInfo0 :: GitRelease where
  "releaseInfo0 =
     \<lparr>GitRelease_Name = ''Release 1.0'', GitRelease_TagName = ''v1.0'',
      GitRelease_Body = ''notes from the caller'', GitRelease_URL = ''''\<rparr>"


definition pullRequestNo :: "int \<Rightarrow> PullRequest" where
  "pullRequestNo n =
     \<lparr>PullRequest_Index = n, PullRequest_URL = '''',
      PullRequest_Poster = Some \<lparr>User_UserName = ''dev'', User_FullName = '''', User_Email = '''',
                                  User_AvatarURL = ''''\<rparr>,
      PullRequest_HasMerged = False, PullRequest_Mergeable = True, PullRequest_Merged = None,
      PullRequest_MergedCommitID = None, PullRequest_Title = ''change'', PullRequest_Body = '''',
      PullRequest_State = ''open'', PullRequest_Head = Some \<lparr>PRBranchInfo_Sha = ''c0ffee''\<rparr>\<rparr>"

text \<open>A backend with five open pull requests, served two to a page.\<close>

definition pagesClient :: "unit gitea_Client" where
  "pagesClient =
     stubClient\<lparr>gitea_ListRepoPullRequests :=
       (\<lambda>owner repo opt s.
          ((if ListOptions_Page opt = 0 then [pullRequestNo 1, pullRequestNo 2]
            else if ListOptions_Page opt = 1 then [pullRequestNo 3, pullRequestNo 4]
            else if ListOptions_Page opt = 2 then [pullRequestNo 5]
            else [], Some \<lparr>StatusCode = 200\<rparr>, None), s))\<rparr>"

definition gitPullRequestNo :: "int \<Rightarrow> GitPullRequest" where
  "gitPullRequestNo n =
     \<lparr>GitPullRequest_URL = '''', GitPullRequest_Owner = ''acme'', GitPullRequest_Repo = ''demo'',
      GitPullRequest_Number = Some n,
      GitPullRequest_Author =
        Some \<lparr>GitUser_URL = '''', GitUser_Login = ''dev'', GitUser_Name = '''', GitUser_Email = '''',
              GitUser_AvatarURL = ''''\<rparr>,
      GitPullRequest_Merged = Some False, GitPullRequest_Mergeable = Some True,
      GitPullRequest_MergedAt = None, GitPullRequest_MergeCommitSHA = None,
      GitPullRequest_Title = ''change'', GitPullRequest_Body = '''',
      GitPullRequest_State = Some ''open'', GitPullRequest_LastCommitSha = ''c0ffee''\<rparr>"

text \<open>
  A clock that is the backend state itself, and two backends that answer the fork with
  ``try again later'': on the first the repository is there from the fifteenth second
  on, on the second it never appears.
\<close>

definition stateClock :: "int Clock" where
  "stateClock = \<lparr>time_Now = (\<lambda>s. s), time_Sleep = (\<lambda>d s. s + d)\<rparr>"

definition forkClient :: "int gitea_Client" where
  "forkClient =
     stubClient\<lparr>gitea_CreateFork :=
       (\<lambda>owner name opt s.
          ((None, Some \<lparr>StatusCode = 500\<rparr>, Some ''fork is in progress, try again later''), s)),
       gitea_GetRepo :=
       (\<lambda>owner name s.
          if 15 * Second \<le> s
          then ((Some (repositoryOf owner name), Some \<lparr>StatusCode = 200\<rparr>, None), s)
          else ((None, Some \<lparr>StatusCode = 404\<rparr>, Some ''404 Not Found''), s))\<rparr>"

definition lostForkClient :: "int gitea_Client" where
  "lostForkClient =
     stubClient\<lparr>gitea_CreateFork :=
       (\<lambda>owner name opt s.
          ((None, Some \<lparr>StatusCode = 500\<rparr>, Some ''fork is in progress, try again later''), s)),
       gitea_GetRepo :=
       (\<lambda>owner name s. ((None, Some \<lparr>StatusCode = 404\<rparr>, Some ''404 Not Found''), s))\<rparr>"

section \<open>Properties\<close>

subsection \<open>Auxiliary facts\<close>

lemma foldl_snoc_map: "foldl (\<lambda>acc x. acc @ [f x]) acc xs = acc @ map f xs"
  by (induction xs arbitrary: acc) simp_all

lemma firstStatusText_find:
  "firstStatusText results = map_option Status_State (find (\<lambda>r. Status_State r \<noteq> '''') results)"
  by (induction results) (simp_all add: Let_def)

lemma firstStatusText_None_iff:
  "firstStatusText results = None \<longleftrightarrow> (\<forall>r \<in> set results. Status_State r = '''')"
  by (induction results) (simp_all add: Let_def)

subsection \<open>ListCommitStatus\<close>

text \<open>
  C8. Whenever the client's \<^verbatim>\<open>ListStatuses\<close> call fails, whatever its error \<open>e\<close> is,
  ListCommitStatus returns the empty list with the fixed ``could not find a status''
  error built from org, repo and sha alone: the client's error is not among its
  arguments, so it is discarded rather than wrapped.
\<close>

theorem ListCommitStatus_error_is_lossy:
  assumes "gitea_ListStatuses (Client p) org repo sha (backend w) = ((results, resp, Some e), s')"
  shows "ListCommitStatus p org repo sha w =
           (([], Some (Errorf ''Could not find a status for repository %s/%s with ref %s''
                         [Str org, Str repo, Str sha])),
            \<lparr>backend = s', calls = calls w @ [ListStatusesCall org repo sha]\<rparr>)"
  using assms by (simp add: ListCommitStatus_def invoke_def)

theorem ListCommitStatus_error_is_lossy_witness:
  "gitea_ListStatuses (Client (provider refusedClient)) ''acme'' ''demo'' ''c0ffee'' (backend (world0 ()))
     = (([], None, Some ''dial tcp: connection refused''), ())
   \<and> ListCommitStatus (provider refusedClient) ''acme'' ''demo'' ''c0ffee'' (world0 ()) =
       (([], Some (Errorf ''Could not find a status for repository %s/%s with ref %s''
                     [Str ''acme'', Str ''demo'', Str ''c0ffee''])),
        \<lparr>backend = (), calls = [ListStatusesCall ''acme'' ''demo'' ''c0ffee'']\<rparr>)"
proof -
  have h: "gitea_ListStatuses (Client (provider refusedClient)) ''acme'' ''demo'' ''c0ffee''
             (backend (world0 ())) = (([], None, Some ''dial tcp: connection refused''), ())"
    by (simp add: provider_def refusedClient_def)
  from ListCommitStatus_error_is_lossy [OF h] h show ?thesis
    by (simp add: world0_def)
qed

subsection \<open>GetIssue\<close>

text \<open>
  C6. When the client's \<^verbatim>\<open>GetIssue\<close> call fails and the response carries status 404,
  GetIssue returns a nil issue with a nil error; on every other failure (another
  status, or no response at all) it returns a nil issue with the client's error.
\<close>

theorem GetIssue_absent_or_failed:
  assumes "gitea_GetIssue (Client p) org name number (backend w) = ((i, resp, Some e), s')"
  shows "GetIssue UrlJoin p org name number w =
           (if (case resp of Some r \<Rightarrow> StatusCode r = 404 | None \<Rightarrow> False)
            then Return (None, None)
            else Return (None, Some (ClientError e)),
            \<lparr>backend = s', calls = calls w @ [GetIssueCall org name number]\<rparr>)"
  using assms by (simp add: GetIssue_def invoke_def split: option.splits)

theorem GetIssue_absent_or_failed_witness:
  "GetIssue concat (provider issueClient) ''acme'' ''demo'' 7 (world0 ()) =
     (Return (None, None), \<lparr>backend = (), calls = [GetIssueCall ''acme'' ''demo'' 7]\<rparr>)
   \<and> GetIssue concat (provider issueClient) ''acme'' ''demo'' 8 (world0 ()) =
     (Return (None, Some (ClientError ''500 Internal Server Error'')),
      \<lparr>backend = (), calls = [GetIssueCall ''acme'' ''demo'' 8]\<rparr>)"
proof -
  have h7: "gitea_GetIssue (Client (provider issueClient)) ''acme'' ''demo'' 7 (backend (world0 ()))
              = ((None, Some \<lparr>StatusCode = 404\<rparr>, Some ''404 Not Found''), ())"
    by (simp add: provider_def issueClient_def)
  have h8: "gitea_GetIssue (Client (provider issueClient)) ''acme'' ''demo'' 8 (backend (world0 ()))
              = ((None, Some \<lparr>StatusCode = 500\<rparr>, Some ''500 Internal Server Error''), ())"
    by (simp add: provider_def issueClient_def)
  from GetIssue_absent_or_failed [OF h7, of concat] GetIssue_absent_or_failed [OF h8, of concat]
  show ?thesis by (simp add: world0_def)
qed

subsection \<open>PullRequestLastCommitStatus\<close>

text \<open>
  C7. With an empty \<^verbatim>\<open>LastCommitSha\<close> PullRequestLastCommitStatus returns an error and
  leaves the world as it was (no client call). Otherwise, when the statuses are listed
  without error, the result is the state of the first status whose state text is not
  empty, and an error when every status has an empty state text.
\<close>

theorem PullRequestLastCommitStatus_first_state:
  "(GitPullRequest_LastCommitSha pr = '''' \<longrightarrow>
      PullRequestLastCommitStatus p pr w =
        (('''', Some (Errorf ''Missing String for LastCommitSha %#v'' [PRArg pr])), w))
   \<and> (GitPullRequest_LastCommitSha pr \<noteq> '''' \<longrightarrow>
        gitea_ListStatuses (Client p) (GitPullRequest_Owner pr) (GitPullRequest_Repo pr)
          (GitPullRequest_LastCommitSha pr) (backend w) = ((results, resp, None), s') \<longrightarrow>
        fst (PullRequestLastCommitStatus p pr w) =
          (case find (\<lambda>r. Status_State r \<noteq> '''') results of
             Some r \<Rightarrow> (Status_State r, None)
           | None \<Rightarrow>
               ('''', Some (Errorf ''Could not find a status for repository %s/%s with ref %s''
                             [Str (GitPullRequest_Owner pr), Str (GitPullRequest_Repo pr),
                              Str (GitPullRequest_LastCommitSha pr)])))
        \<and> ((\<forall>r \<in> set results. Status_State r = '''') \<longrightarrow>
             snd (fst (PullRequestLastCommitStatus p pr w)) \<noteq> None))"
proof (intro conjI impI)
  assume "GitPullRequest_LastCommitSha pr = ''''"
  then show "PullRequestLastCommitStatus p pr w =
        (('''', Some (Errorf ''Missing String for LastCommitSha %#v'' [PRArg pr])), w)"
    by (simp add: PullRequestLastCommitStatus_def)
next
  assume sha: "GitPullRequest_LastCommitSha pr \<noteq> ''''"
    and ls: "gitea_ListStatuses (Client p) (GitPullRequest_Owner pr) (GitPullRequest_Repo pr)
          (GitPullRequest_LastCommitSha pr) (backend w) = ((results, resp, None), s')"
  then show "fst (PullRequestLastCommitStatus p pr w) =
          (case find (\<lambda>r. Status_State r \<noteq> '''') results of
             Some r \<Rightarrow> (Status_State r, None)
           | None \<Rightarrow>
               ('''', Some (Errorf ''Could not find a status for repository %s/%s with ref %s''
                             [Str (GitPullRequest_Owner pr), Str (GitPullRequest_Repo pr),
                              Str (GitPullRequest_LastCommitSha pr)])))"
    by (simp add: PullRequestLastCommitStatus_def invoke_def firstStatusText_find Let_def
        split: option.splits)
next
  assume sha: "GitPullRequest_LastCommitSha pr \<noteq> ''''"
    and ls: "gitea_ListStatuses (Client p) (GitPullRequest_Owner pr) (GitPullRequest_Repo pr)
          (GitPullRequest_LastCommitSha pr) (backend w) = ((results, resp, None), s')"
    and "\<forall>r \<in> set results. Status_State r = ''''"
  then have "firstStatusText results = None"
    by (simp add: firstStatusText_None_iff)
  with sha ls show "snd (fst (PullRequestLastCommitStatus p pr w)) \<noteq> None"
    by (simp add: PullRequestLastCommitStatus_def invoke_def Let_def)
qed

theorem PullRequestLastCommitStatus_first_state_witness:
  "PullRequestLastCommitStatus (provider statusClient) (pullRequest '''') (world0 ()) =
     (('''', Some (Errorf ''Missing String for LastCommitSha %#v'' [PRArg (pullRequest '''')])), world0 ())
   \<and> fst (PullRequestLastCommitStatus (provider statusClient) (pullRequest ''c0ffee'') (world0 ()))
       = (''pending'', None)"
proof -
  have h: "gitea_ListStatuses (Client (provider statusClient)) (GitPullRequest_Owner (pullRequest ''c0ffee''))
             (GitPullRequest_Repo (pullRequest ''c0ffee'')) (GitPullRequest_LastCommitSha (pullRequest ''c0ffee''))
             (backend (world0 ()))
           = (([status 1 '''', status 2 ''pending'', status 3 ''success''], Some \<lparr>StatusCode = 200\<rparr>, None), ())"
    by (simp add: provider_def statusClient_def)
  have e: "GitPullRequest_LastCommitSha (pullRequest '''') = ''''"
    and n: "GitPullRequest_LastCommitSha (pullRequest ''c0ffee'') \<noteq> ''''"
    by (simp_all add: pullRequest_def)
  from PullRequestLastCommitStatus_first_state [of "pullRequest ''''" "provider statusClient" "world0 ()"] e
  have a: "PullRequestLastCommitStatus (provider statusClient) (pullRequest '''') (world0 ()) =
     (('''', Some (Errorf ''Missing String for LastCommitSha %#v'' [PRArg (pullRequest '''')])), world0 ())"
    by simp
  from PullRequestLastCommitStatus_first_state [of "pullRequest ''c0ffee''" "provider statusClient" "world0 ()"] n h
  have b: "fst (PullRequestLastCommitStatus (provider statusClient) (pullRequest ''c0ffee'') (world0 ()))
       = (''pending'', None)"
    by (simp add: status_def)
  from a b show ?thesis by simp
qed

subsection \<open>ListRepositories\<close>

text \<open>
  C9, as stated, fails: ListRepositories passes the name of the client's own repository
  object to \<^verbatim>\<open>toGiteaRepo\<close>, so a repository that the client returns without a name
  comes back from a successful call with an empty \<^verbatim>\<open>Name\<close>.
\<close>

theorem ListRepositories_nameless_counterexample:
  "snd (fst (ListRepositories (provider namelessClient) '''' (world0 ()))) = None
   \<and> map GitRepository_Name (fst (fst (ListRepositories (provider namelessClient) '''' (world0 ()))))
       = ['''']"
  by (simp add: ListRepositories_def invoke_def provider_def namelessClient_def world0_def
      toGiteaRepo_def repositoryOf_def)

text \<open>
  C9, amended. After a successful call of ListRepositories the returned repositories
  are the client's, in order, each converted with its own name: the \<^verbatim>\<open>Name\<close> fields are
  the names of the client's objects, and they are all non-empty when the client's are.
\<close>

theorem ListRepositories_names_from_backend:
  assumes "(if org = '''' then gitea_ListMyRepos (Client p) (backend w)
            else gitea_ListOrgRepos (Client p) org (backend w)) = ((repos, resp, None), s')"
  shows "fst (ListRepositories p org w) =
           (map (\<lambda>repo. toGiteaRepo (Repository_Name repo) repo) repos, None)
         \<and> map GitRepository_Name (fst (fst (ListRepositories p org w))) = map Repository_Name repos
         \<and> ((\<forall>repo \<in> set repos. Repository_Name repo \<noteq> '''') \<longrightarrow>
              (\<forall>g \<in> set (fst (fst (ListRepositories p org w))). GitRepository_Name g \<noteq> ''''))"
proof -
  have r: "fst (ListRepositories p org w) =
           (map (\<lambda>repo. toGiteaRepo (Repository_Name repo) repo) repos, None)"
    using assms
    by (cases "org = ''''") (simp_all add: ListRepositories_def invoke_def foldl_snoc_map)
  have n: "map GitRepository_Name (map (\<lambda>repo. toGiteaRepo (Repository_Name repo) repo) repos)
             = map Repository_Name repos"
    by (simp add: toGiteaRepo_def)
  from r n show ?thesis
    by (auto simp: toGiteaRepo_def)
qed

theorem ListRepositories_names_from_backend_witness:
  "map GitRepository_Name (fst (fst (ListRepositories (provider reposClient) '''' (world0 ()))))
     = [''alpha'', ''beta'']
   \<and> map GitRepository_Name (fst (fst (ListRepositories (provider reposClient) ''acme'' (world0 ()))))
     = [''gamma'']"
proof -
  have h1: "(if '''' = '''' then gitea_ListMyRepos (Client (provider reposClient)) (backend (world0 ()))
             else gitea_ListOrgRepos (Client (provider reposClient)) '''' (backend (world0 ())))
            = (([repositoryOf ''bot'' ''alpha'', repositoryOf ''bot'' ''beta''],
                Some \<lparr>StatusCode = 200\<rparr>, None), ())"
    by (simp add: provider_def reposClient_def)
  have h2: "(if ''acme'' = '''' then gitea_ListMyRepos (Client (provider reposClient)) (backend (world0 ()))
             else gitea_ListOrgRepos (Client (provider reposClient)) ''acme'' (backend (world0 ())))
            = (([repositoryOf ''acme'' ''gamma''], Some \<lparr>StatusCode = 200\<rparr>, None), ())"
    by (simp add: provider_def reposClient_def)
  from ListRepositories_names_from_backend [OF h1, THEN conjunct2, THEN conjunct1]
    ListRepositories_names_from_backend [OF h2, THEN conjunct2, THEN conjunct1]
  show ?thesis by (simp add: repositoryOf_def)
qed

subsection \<open>CreateRepository\<close>

text \<open>
  C1 does not hold of the code. Run for the organisation acme, CreateRepository calls
  the org-scoped \<^verbatim>\<open>CreateOrgRepo\<close> and then, there being no \<^verbatim>\<open>else\<close>, the user-scoped
  \<^verbatim>\<open>CreateRepo\<close> as well: the backend ends with a repository under acme and one under
  the user, and the repository returned is the user's.
\<close>

theorem CreateRepository_org_then_user:
  "CreateRepository (provider createClient) ''acme'' ''demo'' False (world0 []) =
     (Return (Some (toGiteaRepo ''demo'' (repositoryOf ''bot'' ''demo'')), None),
      \<lparr>backend = [(''acme'', ''demo''), (''bot'', ''demo'')],
       calls = [CreateOrgRepoCall ''acme'' \<lparr>CreateRepoOption_Name = ''demo'', CreateRepoOption_Private = False\<rparr>,
                CreateRepoCall \<lparr>CreateRepoOption_Name = ''demo'', CreateRepoOption_Private = False\<rparr>]\<rparr>)"
  by (simp add: CreateRepository_def invoke_def provider_def createClient_def world0_def Let_def)

text \<open>The same for every client: the user-scoped call is always made, and made last.\<close>

lemma CreateRepository_calls:
  "calls (snd (CreateRepository p org name private w)) =
     calls w @ (if org = '''' then [] else
        [CreateOrgRepoCall org \<lparr>CreateRepoOption_Name = name, CreateRepoOption_Private = private\<rparr>])
     @ [CreateRepoCall \<lparr>CreateRepoOption_Name = name, CreateRepoOption_Private = private\<rparr>]"
  by (simp add: CreateRepository_def invoke_def Let_def split: prod.splits option.splits)

subsection \<open>CreateWebHook\<close>

lemma alreadyRegistered_iff:
  "alreadyRegistered hooks url \<longleftrightarrow> (\<exists>h \<in> set hooks. configURL h = url)"
  by (induction hooks) simp_all

lemma CreateWebHook_registered:
  assumes "GitWebHookArguments_Repo data = Some r"
    and "GitRepository_Name r \<noteq> ''''"
    and "owner = (if GitWebHookArguments_Owner data = '''' then Username p
                  else GitWebHookArguments_Owner data)"
    and "gitea_ListRepoHooks (Client p) owner (GitRepository_Name r) (backend w)
           = ((hooks, resp, None), s1)"
    and "\<exists>h \<in> set hooks. configURL h = GitWebHookArguments_URL data"
  shows "CreateWebHook p data w =
           (Return None,
            \<lparr>backend = s1, calls = calls w @ [ListRepoHooksCall owner (GitRepository_Name r)]\<rparr>)"
  using assms by (simp add: CreateWebHook_def invoke_def Let_def alreadyRegistered_iff)

lemma CreateWebHook_list_failed:
  assumes "GitWebHookArguments_Repo data = Some r"
    and "GitRepository_Name r \<noteq> ''''"
    and "owner = (if GitWebHookArguments_Owner data = '''' then Username p
                  else GitWebHookArguments_Owner data)"
    and "gitea_ListRepoHooks (Client p) owner (GitRepository_Name r) (backend w)
           = ((hooks, resp, Some e), s1)"
  shows "CreateWebHook p data w =
           (Return (Some (ClientError e)),
            \<lparr>backend = s1, calls = calls w @ [ListRepoHooksCall owner (GitRepository_Name r)]\<rparr>)"
  using assms by (simp add: CreateWebHook_def invoke_def Let_def)

lemma CreateWebHook_created:
  assumes "GitWebHookArguments_Repo data = Some r"
    and "GitRepository_Name r \<noteq> ''''"
    and "owner = (if GitWebHookArguments_Owner data = '''' then Username p
                  else GitWebHookArguments_Owner data)"
    and "gitea_ListRepoHooks (Client p) owner (GitRepository_Name r) (backend w)
           = ((hooks, resp, None), s1)"
    and "\<forall>h \<in> set hooks. configURL h \<noteq> GitWebHookArguments_URL data"
    and "gitea_CreateRepoHook (Client p) owner (GitRepository_Name r)
           (newHook (GitWebHookArguments_URL data) (GitWebHookArguments_Secret data)) s1
           = ((h, resp1, err), s2)"
  shows "CreateWebHook p data w =
           (Return (case err of
                      None \<Rightarrow> None
                    | Some e \<Rightarrow>
                        Some (Errorf ''Failed to create webhook for %s/%s with %#v due to: %s''
                                [Str owner, Str (GitRepository_Name r),
                                 HookArg (newHook (GitWebHookArguments_URL data)
                                            (GitWebHookArguments_Secret data)),
                                 Err (Some e)])),
            \<lparr>backend = s2,
             calls = calls w @
               [ListRepoHooksCall owner (GitRepository_Name r),
                CreateRepoHookCall owner (GitRepository_Name r)
                  (newHook (GitWebHookArguments_URL data) (GitWebHookArguments_Secret data))]\<rparr>)"
  using assms
  by (cases "GitWebHookArguments_Secret data = []"; cases "GitWebHookArguments_Owner data = []";
      cases err)
     (simp_all add: CreateWebHook_def invoke_def Let_def alreadyRegistered_iff newHook_def)

text \<open>
  C4. When the hooks listed for the repository hold one whose configured url is the
  requested URL, CreateWebHook returns success after the listing alone: no hook is
  created. Hence two calls in a row with the same arguments make exactly one
  \<^verbatim>\<open>CreateRepoHook\<close> call between them, and both succeed, on a backend that lists no
  such hook at first, creates the hook without error and then lists the hook it created.
\<close>

theorem CreateWebHook_idempotent:
  assumes "GitWebHookArguments_Repo data = Some r"
    and "GitRepository_Name r \<noteq> ''''"
    and "owner = (if GitWebHookArguments_Owner data = '''' then Username p
                  else GitWebHookArguments_Owner data)"
    and "name = GitRepository_Name r"
    and "url = GitWebHookArguments_URL data"
    and "opt = newHook url (GitWebHookArguments_Secret data)"
  shows "(gitea_ListRepoHooks (Client p) owner name (backend w) = ((hooks, resp, None), s1) \<longrightarrow>
          (\<exists>h \<in> set hooks. configURL h = url) \<longrightarrow>
          CreateWebHook p data w =
            (Return None, \<lparr>backend = s1, calls = calls w @ [ListRepoHooksCall owner name]\<rparr>))
       \<and> (gitea_ListRepoHooks (Client p) owner name (backend w) = ((hooks0, resp0, None), t1) \<longrightarrow>
          (\<forall>h \<in> set hooks0. configURL h \<noteq> url) \<longrightarrow>
          gitea_CreateRepoHook (Client p) owner name opt t1 = ((created, resp1, None), t2) \<longrightarrow>
          gitea_ListRepoHooks (Client p) owner name t2 = ((hooks2, resp2, None), t3) \<longrightarrow>
          (\<exists>h \<in> set hooks2. configURL h = url) \<longrightarrow>
          fst (CreateWebHook p data w) = Return None
          \<and> CreateWebHook p data (snd (CreateWebHook p data w)) =
              (Return None,
               \<lparr>backend = t3,
                calls = calls w @ [ListRepoHooksCall owner name, CreateRepoHookCall owner name opt,
                                   ListRepoHooksCall owner name]\<rparr>))"
proof (intro conjI impI)
  assume "gitea_ListRepoHooks (Client p) owner name (backend w) = ((hooks, resp, None), s1)"
    and "\<exists>h \<in> set hooks. configURL h = url"
  with assms show "CreateWebHook p data w =
            (Return None, \<lparr>backend = s1, calls = calls w @ [ListRepoHooksCall owner name]\<rparr>)"
    by (simp add: CreateWebHook_registered)
next
  assume l0: "gitea_ListRepoHooks (Client p) owner name (backend w) = ((hooks0, resp0, None), t1)"
    and n0: "\<forall>h \<in> set hooks0. configURL h \<noteq> url"
    and c: "gitea_CreateRepoHook (Client p) owner name opt t1 = ((created, resp1, None), t2)"
  have first: "CreateWebHook p data w =
      (Return None,
       \<lparr>backend = t2,
        calls = calls w @ [ListRepoHooksCall owner name, CreateRepoHookCall owner name opt]\<rparr>)"
    using CreateWebHook_created [of data r owner p w hooks0 resp0 t1 created resp1 None t2]
      assms l0 n0 c by simp
  then show "fst (CreateWebHook p data w) = Return None"
    by simp
  assume l2: "gitea_ListRepoHooks (Client p) owner name t2 = ((hooks2, resp2, None), t3)"
    and m2: "\<exists>h \<in> set hooks2. configURL h = url"
  let ?w1 = "\<lparr>backend = t2,
        calls = calls w @ [ListRepoHooksCall owner name, CreateRepoHookCall owner name opt]\<rparr>"
  have "CreateWebHook p data ?w1 =
      (Return None, \<lparr>backend = t3, calls = calls ?w1 @ [ListRepoHooksCall owner name]\<rparr>)"
    using CreateWebHook_registered [of data r owner p ?w1 hooks2 resp2 t3] assms l2 m2 by simp
  with first show "CreateWebHook p data (snd (CreateWebHook p data w)) =
              (Return None,
               \<lparr>backend = t3,
                calls = calls w @ [ListRepoHooksCall owner name, CreateRepoHookCall owner name opt,
                                   ListRepoHooksCall owner name]\<rparr>)"
    by simp
qed

theorem CreateWebHook_idempotent_witness:
  "CreateWebHook (provider hookClient) (webHookArguments ''https://ci.example/hook'' ''s3cret'')
       (world0 [\<lparr>Hook_Config = [(''url'', ''https://ci.example/hook'')]\<rparr>]) =
     (Return None,
      \<lparr>backend = [\<lparr>Hook_Config = [(''url'', ''https://ci.example/hook'')]\<rparr>],
       calls = [ListRepoHooksCall ''acme'' ''demo'']\<rparr>)
   \<and> fst (CreateWebHook (provider hookClient) (webHookArguments ''https://ci.example/hook'' ''s3cret'')
            (world0 [])) = Return None
   \<and> CreateWebHook (provider hookClient) (webHookArguments ''https://ci.example/hook'' ''s3cret'')
       (snd (CreateWebHook (provider hookClient)
               (webHookArguments ''https://ci.example/hook'' ''s3cret'') (world0 []))) =
     (Return None,
      \<lparr>backend = [\<lparr>Hook_Config = CreateHookOption_Config
                                     (newHook ''https://ci.example/hook'' ''s3cret'')\<rparr>],
       calls = [ListRepoHooksCall ''acme'' ''demo'',
                CreateRepoHookCall ''acme'' ''demo'' (newHook ''https://ci.example/hook'' ''s3cret''),
                ListRepoHooksCall ''acme'' ''demo'']\<rparr>)"
proof -
  let ?D = "webHookArguments ''https://ci.example/hook'' ''s3cret''"
  let ?R = "toGiteaRepo ''demo'' (repositoryOf ''acme'' ''demo'')"
  let ?P = "provider hookClient :: Hook list GiteaProvider"
  let ?h1 = "\<lparr>Hook_Config = [(''url'', ''https://ci.example/hook'')]\<rparr>"
  let ?hk = "\<lparr>Hook_Config = CreateHookOption_Config (newHook ''https://ci.example/hook'' ''s3cret'')\<rparr>"
  have r: "GitWebHookArguments_Repo ?D = Some ?R"
    by (simp add: webHookArguments_def)
  have nm: "GitRepository_Name ?R \<noteq> ''''"
    by (simp add: toGiteaRepo_def)
  have ow: "''acme'' = (if GitWebHookArguments_Owner ?D = '''' then Username ?P
                        else GitWebHookArguments_Owner ?D)"
    by (simp add: webHookArguments_def)
  note T = CreateWebHook_idempotent [OF r nm ow refl refl refl]
  have a: "CreateWebHook ?P ?D (world0 [?h1]) =
     (Return None, \<lparr>backend = [?h1], calls = [ListRepoHooksCall ''acme'' ''demo'']\<rparr>)"
    using T [where w = "world0 [?h1]" and hooks = "[?h1]" and resp = "Some \<lparr>StatusCode = 200\<rparr>"
        and ?s1.0 = "[?h1]", THEN conjunct1]
    by (simp add: provider_def hookClient_def world0_def toGiteaRepo_def webHookArguments_def
        configURL_def)
  have b: "fst (CreateWebHook ?P ?D (world0 [])) = Return None
     \<and> CreateWebHook ?P ?D (snd (CreateWebHook ?P ?D (world0 []))) =
       (Return None,
        \<lparr>backend = [?hk],
         calls = [ListRepoHooksCall ''acme'' ''demo'',
                  CreateRepoHookCall ''acme'' ''demo'' (newHook ''https://ci.example/hook'' ''s3cret''),
                  ListRepoHooksCall ''acme'' ''demo'']\<rparr>)"
    using T [where w = "world0 []" and ?hooks0.0 = "[]" and ?resp0.0 = "Some \<lparr>StatusCode = 200\<rparr>"
        and ?t1.0 = "[]" and created = "Some ?hk" and ?resp1.0 = "Some \<lparr>StatusCode = 201\<rparr>"
        and ?t2.0 = "[?hk]" and ?hooks2.0 = "[?hk]" and ?resp2.0 = "Some \<lparr>StatusCode = 200\<rparr>"
        and ?t3.0 = "[?hk]", THEN conjunct2]
    by (simp add: provider_def hookClient_def world0_def toGiteaRepo_def webHookArguments_def
        configURL_def newHook_def)
  from a b show ?thesis by simp
qed

text \<open>
  C10. With a non-empty repository name CreateWebHook never returns the
  ``Missing property URL'' error, whatever the URL: the second check tests the
  repository name again, so the call goes on to list the hooks. With an empty URL, when
  the listing succeeds and no listed hook has an empty (or missing) url, it goes on to
  create a hook whose configured url is empty.
\<close>

theorem CreateWebHook_URL_never_missing:
  assumes "GitWebHookArguments_Repo data = Some r"
    and "GitRepository_Name r \<noteq> ''''"
    and "owner = (if GitWebHookArguments_Owner data = '''' then Username p
                  else GitWebHookArguments_Owner data)"
    and "name = GitRepository_Name r"
  shows "fst (CreateWebHook p data w) \<noteq> Return (Some (Errorf ''Missing property URL'' []))
       \<and> take (Suc (length (calls w))) (calls (snd (CreateWebHook p data w)))
           = calls w @ [ListRepoHooksCall owner name]
       \<and> (GitWebHookArguments_URL data = '''' \<longrightarrow>
          gitea_ListRepoHooks (Client p) owner name (backend w) = ((hooks, resp, None), s1) \<longrightarrow>
          (\<forall>h \<in> set hooks. configURL h \<noteq> '''') \<longrightarrow>
          calls (snd (CreateWebHook p data w)) =
            calls w @ [ListRepoHooksCall owner name,
                       CreateRepoHookCall owner name (newHook '''' (GitWebHookArguments_Secret data))]
          \<and> map_of (CreateHookOption_Config (newHook '''' (GitWebHookArguments_Secret data))) ''url''
              = Some '''')"
proof (intro conjI impI)
  obtain hooks' resp' err' s' where l:
    "gitea_ListRepoHooks (Client p) owner (GitRepository_Name r) (backend w)
       = ((hooks', resp', err'), s')"
    by (metis prod.exhaust)
  obtain h resp1 err1 s2 where c:
    "gitea_CreateRepoHook (Client p) owner (GitRepository_Name r)
       (newHook (GitWebHookArguments_URL data) (GitWebHookArguments_Secret data)) s'
       = ((h, resp1, err1), s2)"
    by (metis prod.exhaust)
  consider (failed) e where "err' = Some e"
    | (registered) "err' = None" "\<exists>h \<in> set hooks'. configURL h = GitWebHookArguments_URL data"
    | (fresh) "err' = None" "\<forall>h \<in> set hooks'. configURL h \<noteq> GitWebHookArguments_URL data"
    by (cases err') auto
  then have "fst (CreateWebHook p data w) \<noteq> Return (Some (Errorf ''Missing property URL'' []))
      \<and> take (Suc (length (calls w))) (calls (snd (CreateWebHook p data w)))
           = calls w @ [ListRepoHooksCall owner name]"
  proof cases
    case failed
    from CreateWebHook_list_failed [OF assms(1) assms(2) assms(3) l [unfolded failed]]
    show ?thesis
      by (simp add: assms(4))
  next
    case registered
    from CreateWebHook_registered [OF assms(1) assms(2) assms(3) l [unfolded registered(1)]
        registered(2)]
    show ?thesis
      by (simp add: assms(4))
  next
    case fresh
    from CreateWebHook_created [OF assms(1) assms(2) assms(3) l [unfolded fresh(1)] fresh(2) c]
    have "CreateWebHook p data w =
           (Return (case err1 of
                      None \<Rightarrow> None
                    | Some e \<Rightarrow>
                        Some (Errorf ''Failed to create webhook for %s/%s with %#v due to: %s''
                                [Str owner, Str (GitRepository_Name r),
                                 HookArg (newHook (GitWebHookArguments_URL data)
                                            (GitWebHookArguments_Secret data)),
                                 Err (Some e)])),
            \<lparr>backend = s2,
             calls = calls w @
               [ListRepoHooksCall owner (GitRepository_Name r),
                CreateRepoHookCall owner (GitRepository_Name r)
                  (newHook (GitWebHookArguments_URL data) (GitWebHookArguments_Secret data))]\<rparr>)"
      .
    then show ?thesis
      by (cases err1) (simp_all add: assms(4))
  qed
  then show "fst (CreateWebHook p data w) \<noteq> Return (Some (Errorf ''Missing property URL'' []))"
    and "take (Suc (length (calls w))) (calls (snd (CreateWebHook p data w)))
           = calls w @ [ListRepoHooksCall owner name]"
    by simp_all
next
  assume u: "GitWebHookArguments_URL data = ''''"
    and l: "gitea_ListRepoHooks (Client p) owner name (backend w) = ((hooks, resp, None), s1)"
    and n: "\<forall>h \<in> set hooks. configURL h \<noteq> ''''"
  obtain h resp1 err s2 where c: "gitea_CreateRepoHook (Client p) owner name
           (newHook (GitWebHookArguments_URL data) (GitWebHookArguments_Secret data)) s1
           = ((h, resp1, err), s2)"
    by (metis prod.exhaust)
  from CreateWebHook_created [of data r owner p w hooks resp s1 h resp1 err s2] assms u l n c
  show "calls (snd (CreateWebHook p data w)) =
            calls w @ [ListRepoHooksCall owner name,
                       CreateRepoHookCall owner name (newHook '''' (GitWebHookArguments_Secret data))]"
    by simp
  show "map_of (CreateHookOption_Config (newHook '''' (GitWebHookArguments_Secret data))) ''url''
              = Some ''''"
    by (simp add: newHook_def)
qed

theorem CreateWebHook_URL_never_missing_witness:
  "fst (CreateWebHook (provider hookClient) (webHookArguments '''' '''') (world0 []))
     \<noteq> Return (Some (Errorf ''Missing property URL'' []))
   \<and> calls (snd (CreateWebHook (provider hookClient) (webHookArguments '''' '''') (world0 []))) =
       [ListRepoHooksCall ''acme'' ''demo'', CreateRepoHookCall ''acme'' ''demo'' (newHook '''' '''')]"
proof -
  let ?D = "webHookArguments '''' ''''"
  let ?R = "toGiteaRepo ''demo'' (repositoryOf ''acme'' ''demo'')"
  let ?P = "provider hookClient :: Hook list GiteaProvider"
  have r: "GitWebHookArguments_Repo ?D = Some ?R"
    by (simp add: webHookArguments_def)
  have nm: "GitRepository_Name ?R \<noteq> ''''"
    by (simp add: toGiteaRepo_def)
  have ow: "''acme'' = (if GitWebHookArguments_Owner ?D = '''' then Username ?P
                        else GitWebHookArguments_Owner ?D)"
    by (simp add: webHookArguments_def)
  note T = CreateWebHook_URL_never_missing [OF r nm ow refl, where w = "world0 []"]
  have a: "fst (CreateWebHook ?P ?D (world0 [])) \<noteq> Return (Some (Errorf ''Missing property URL'' []))"
    using T [THEN conjunct1] .
  have b: "calls (snd (CreateWebHook ?P ?D (world0 []))) =
       [ListRepoHooksCall ''acme'' ''demo'', CreateRepoHookCall ''acme'' ''demo'' (newHook '''' '''')]"
    using T [where hooks = "[]" and resp = "Some \<lparr>StatusCode = 200\<rparr>" and ?s1.0 = "[]",
        THEN conjunct2, THEN conjunct2]
    by (simp add: provider_def hookClient_def world0_def toGiteaRepo_def webHookArguments_def)
  from a b show ?thesis by simp
qed

subsection \<open>UpdateRelease\<close>

text \<open>
  What UpdateRelease does after a fetch that passes the error check, with the whole
  result: on a nil release one \<^verbatim>\<open>CreateRelease\<close> call from the caller's fields, whose
  error is returned and whose backend state is left; on a release one \<^verbatim>\<open>EditRelease\<close>
  call on it, whose error is returned when there is one, and else the error of the fetch.
\<close>

lemma UpdateRelease_created:
  assumes "gitea_GetReleaseByTag (Client p) owner repo tag (backend w) = ((None, resp, err), s1)"
    and "err = None \<or> (\<exists>r. resp = Some r \<and> StatusCode r = 404)"
    and "gitea_CreateRelease (Client p) owner repo (createOption releaseInfo) s1
           = ((created, resp2, err2), s2)"
  shows "UpdateRelease p owner repo tag releaseInfo w =
           ((map_option ClientError err2, releaseInfo),
            \<lparr>backend = s2,
             calls = calls w @ [GetReleaseByTagCall owner repo tag,
                                CreateReleaseCall owner repo (createOption releaseInfo)]\<rparr>)"
  using assms
  by (cases err; cases resp)
     (auto simp add: UpdateRelease_def invoke_def createOption_def Let_def)

lemma editOption_steps:
  "(let editRelease =
          \<lparr>EditReleaseOption_TagName = Release_TagName release,
           EditReleaseOption_Title = Release_Title release,
           EditReleaseOption_Note = Release_Note release,
           EditReleaseOption_IsDraft = Some False,
           EditReleaseOption_IsPrerelease = Some False\<rparr>;
        editRelease =
          (if EditReleaseOption_Title editRelease = '''' \<and> GitRelease_Name releaseInfo \<noteq> ''''
           then editRelease\<lparr>EditReleaseOption_Title := GitRelease_Name releaseInfo\<rparr>
           else editRelease);
        editRelease =
          (if EditReleaseOption_TagName editRelease = '''' \<and> GitRelease_TagName releaseInfo \<noteq> ''''
           then editRelease\<lparr>EditReleaseOption_TagName := GitRelease_TagName releaseInfo\<rparr>
           else editRelease);
        editRelease =
          (if EditReleaseOption_Note editRelease = '''' \<and> GitRelease_Body releaseInfo \<noteq> ''''
           then editRelease\<lparr>EditReleaseOption_Note := GitRelease_Body releaseInfo\<rparr>
           else editRelease)
    in f editRelease) = f (editOption release releaseInfo)"
  by (cases "Release_TagName release = []"; cases "Release_Title release = []";
      cases "Release_Note release = []"; cases "GitRelease_TagName releaseInfo = []";
      cases "GitRelease_Name releaseInfo = []"; cases "GitRelease_Body releaseInfo = []")
     (simp_all add: Let_def editOption_def)

lemma UpdateRelease_edited:
  assumes "gitea_GetReleaseByTag (Client p) owner repo tag (backend w) = ((Some rel, resp, err), s1)"
    and "err = None \<or> (\<exists>r. resp = Some r \<and> StatusCode r = 404)"
    and "gitea_EditRelease (Client p) owner repo (Release_ID rel) (editOption rel releaseInfo) s1
           = ((r2, resp2, err2), s2)"
  shows "UpdateRelease p owner repo tag releaseInfo w =
           ((case err2 of
               Some e \<Rightarrow> (Some (ClientError e), releaseInfo)
             | None \<Rightarrow>
                 (map_option ClientError err,
                  case r2 of
                    Some r \<Rightarrow> releaseInfo\<lparr>GitRelease_URL := Release_URL r\<rparr>
                  | None \<Rightarrow> releaseInfo)),
            \<lparr>backend = s2,
             calls = calls w @ [GetReleaseByTagCall owner repo tag,
                                EditReleaseCall owner repo (Release_ID rel)
                                  (editOption rel releaseInfo)]\<rparr>)"
proof -
  from assms(2)
  have ok: "(err \<noteq> None \<and> (case resp of None \<Rightarrow> True | Some r \<Rightarrow> StatusCode r \<noteq> 404)) = False"
    by (auto split: option.splits)
  show ?thesis
    unfolding UpdateRelease_def
    using assms(1) assms(3)
    by (simp only: invoke_def prod.case ok if_False option.case editOption_steps world.simps)
       (simp split: option.splits)
qed

lemma editOption_keeps_backend_fields:
  "(Release_Title rel \<noteq> '''' \<longrightarrow> EditReleaseOption_Title (editOption rel releaseInfo) = Release_Title rel)
   \<and> (Release_TagName rel \<noteq> '''' \<longrightarrow>
        EditReleaseOption_TagName (editOption rel releaseInfo) = Release_TagName rel)
   \<and> (Release_Note rel \<noteq> '''' \<longrightarrow> EditReleaseOption_Note (editOption rel releaseInfo) = Release_Note rel)
   \<and> (Release_Title rel = '''' \<longrightarrow>
        EditReleaseOption_Title (editOption rel releaseInfo) = GitRelease_Name releaseInfo)
   \<and> (Release_TagName rel = '''' \<longrightarrow>
        EditReleaseOption_TagName (editOption rel releaseInfo) = GitRelease_TagName releaseInfo)
   \<and> (Release_Note rel = '''' \<longrightarrow>
        EditReleaseOption_Note (editOption rel releaseInfo) = GitRelease_Body releaseInfo)"
  by (simp add: editOption_def)

text \<open>
  C5 does not hold of the code. UpdateRelease lets a 404 pass its error check as ``no
  such release'', but chooses between creating and editing by \<^verbatim>\<open>release == nil\<close> alone.
  On a backend that has no release for the tag and answers the fetch with the error, the
  404 response and an allocated, empty release object, it creates nothing: it makes one
  \<^verbatim>\<open>EditRelease\<close> call on release 0 with the caller's fields, the backend is left without
  any release, and the error of that edit is returned.
\<close>

theorem UpdateRelease_not_found_edits_release_zero:
  "UpdateRelease (provider releaseStore) ''acme'' ''demo'' ''v1.0'' releaseInfo0 (world0 []) =
     ((Some (ClientError ''404 Not Found''), releaseInfo0),
      \<lparr>backend = [],
       calls = [GetReleaseByTagCall ''acme'' ''demo'' ''v1.0'',
                EditReleaseCall ''acme'' ''demo'' 0
                  \<lparr>EditReleaseOption_TagName = ''v1.0'', EditReleaseOption_Title = ''Release 1.0'',
                   EditReleaseOption_Note = ''notes from the caller'',
                   EditReleaseOption_IsDraft = Some False,
                   EditReleaseOption_IsPrerelease = Some False\<rparr>]\<rparr>)"
  by (simp add: UpdateRelease_def invoke_def provider_def releaseStore_def world0_def
      releaseInfo0_def emptyRelease_def Let_def)

text \<open>
  The same backend, once it has a release for the tag with a title and a note of its
  own: the edit keeps them, and the stored release is as it was.
\<close>

lemma UpdateRelease_keeps_populated_fields:
  "UpdateRelease (provider releaseStore) ''acme'' ''demo'' ''v1.0'' releaseInfo0
       (world0 [\<lparr>Release_ID = 7, Release_TagName = ''v1.0'', Release_Title = ''On the server'',
                  Release_Note = ''notes on the server'', Release_URL = ''https://gitea.example/r/7''\<rparr>]) =
     ((None, releaseInfo0\<lparr>GitRelease_URL := ''https://gitea.example/r/7''\<rparr>),
      \<lparr>backend = [\<lparr>Release_ID = 7, Release_TagName = ''v1.0'', Release_Title = ''On the server'',
                    Release_Note = ''notes on the server'', Release_URL = ''https://gitea.example/r/7''\<rparr>],
       calls = [GetReleaseByTagCall ''acme'' ''demo'' ''v1.0'',
                EditReleaseCall ''acme'' ''demo'' 7
                  \<lparr>EditReleaseOption_TagName = ''v1.0'', EditReleaseOption_Title = ''On the server'',
                   EditReleaseOption_Note = ''notes on the server'',
                   EditReleaseOption_IsDraft = Some False,
                   EditReleaseOption_IsPrerelease = Some False\<rparr>]\<rparr>)"
  by (simp add: UpdateRelease_def invoke_def provider_def releaseStore_def world0_def
      releaseInfo0_def Let_def)

subsection \<open>ListOpenPullRequests\<close>

lemma toPullRequest_poster:
  "PullRequest_Poster pr \<noteq> None \<Longrightarrow> \<exists>g. toPullRequest owner repo pr = Return g"
  by (auto simp: toPullRequest_def updatePullRequest_def Let_def)

lemma appendPullRequests_posters:
  "\<forall>pr \<in> set prs. PullRequest_Poster pr \<noteq> None \<Longrightarrow>
   \<exists>gs. appendPullRequests owner repo answer prs = Return (answer @ gs)
        \<and> map Return gs = map (toPullRequest owner repo) prs"
proof (induction prs arbitrary: answer)
  case Nil
  then show ?case by simp
next
  case (Cons pr prs)
  then obtain g where g: "toPullRequest owner repo pr = Return g"
    using toPullRequest_poster [of pr owner repo] by auto
  from Cons obtain gs where gs: "appendPullRequests owner repo (answer @ [g]) prs = Return ((answer @ [g]) @ gs)"
      "map Return gs = map (toPullRequest owner repo) prs"
    by fastforce
  from g gs have "appendPullRequests owner repo answer (pr # prs) = Return (answer @ (g # gs))
      \<and> map Return (g # gs) = map (toPullRequest owner repo) (pr # prs)"
    by simp
  then show ?case by blast
qed

lemma listPullRequestPages_run:
  assumes "pageResponses p owner repo page (Suc n) (backend w) = (rs, s')"
    and "\<forall>i<n. snd (rs ! i) = None \<and> \<not> shortPage pageSize (fst (rs ! i))"
    and "snd (rs ! n) = None \<and> shortPage pageSize (fst (rs ! n))"
    and "\<forall>pr \<in> set (concat (map fst rs)). PullRequest_Poster pr \<noteq> None"
  shows "\<exists>gs. listPullRequestPages pageSize p owner repo (pageRequest page) answer w =
             Some (Return (answer @ gs, None),
                   \<lparr>backend = s',
                    calls = calls w @
                      map (\<lambda>i. ListRepoPullRequestsCall owner repo (pageRequest (page + int i)))
                        [0..<Suc n]\<rparr>)
           \<and> map Return gs = map (toPullRequest owner repo) (concat (map fst rs))"
  using assms
proof (induction n arbitrary: page answer w rs)
  case 0
  obtain prs resp err s1 where l:
    "gitea_ListRepoPullRequests (Client p) owner repo (pageRequest page) (backend w)
       = ((prs, resp, err), s1)"
    by (metis prod.exhaust)
  with "0.prems"(1) have rs: "rs = [(prs, err)]" and s': "s' = s1"
    by simp_all
  from "0.prems"(3) rs have e: "err = None" and sh: "shortPage pageSize prs"
    by simp_all
  from "0.prems"(4) rs have "\<forall>pr \<in> set prs. PullRequest_Poster pr \<noteq> None"
    by simp
  from appendPullRequests_posters [OF this, of owner repo answer]
  obtain gs where gs: "appendPullRequests owner repo answer prs = Return (answer @ gs)"
      "map Return gs = map (toPullRequest owner repo) prs"
    by blast
  have "listPullRequestPages pageSize p owner repo (pageRequest page) answer w =
          Some (Return (answer @ gs, None),
                \<lparr>backend = s1,
                 calls = calls w @ [ListRepoPullRequestsCall owner repo (pageRequest page)]\<rparr>)"
    using l e sh gs(1)
    by (subst listPullRequestPages.simps) (simp add: invoke_def shortPage_def)
  with gs(2) rs s' show ?case
    by simp
next
  case (Suc n)
  obtain prs resp err s1 where l:
    "gitea_ListRepoPullRequests (Client p) owner repo (pageRequest page) (backend w)
       = ((prs, resp, err), s1)"
    by (metis prod.exhaust)
  obtain rs1 where r1: "pageResponses p owner repo (page + 1) (Suc n) s1 = (rs1, s')"
    and rs: "rs = (prs, err) # rs1"
    using Suc.prems(1) l by (auto split: prod.splits)
  from Suc.prems(2) rs have e: "err = None" and sh: "\<not> shortPage pageSize prs"
    by auto
  from Suc.prems(2) rs have full: "\<forall>i<n. snd (rs1 ! i) = None \<and> \<not> shortPage pageSize (fst (rs1 ! i))"
    by auto
  from Suc.prems(3) rs have last: "snd (rs1 ! n) = None \<and> shortPage pageSize (fst (rs1 ! n))"
    by simp
  from Suc.prems(4) rs have posters: "\<forall>pr \<in> set prs. PullRequest_Poster pr \<noteq> None"
    and posters1: "\<forall>pr \<in> set (concat (map fst rs1)). PullRequest_Poster pr \<noteq> None"
    by auto
  from appendPullRequests_posters [OF posters, of owner repo answer]
  obtain gs where gs: "appendPullRequests owner repo answer prs = Return (answer @ gs)"
      "map Return gs = map (toPullRequest owner repo) prs"
    by blast
  let ?w1 = "\<lparr>backend = s1,
              calls = calls w @ [ListRepoPullRequestsCall owner repo (pageRequest page)]\<rparr>"
  have step: "listPullRequestPages pageSize p owner repo (pageRequest page) answer w =
          listPullRequestPages pageSize p owner repo (pageRequest (page + 1)) (answer @ gs) ?w1"
    using l e sh gs(1)
    by (subst listPullRequestPages.simps) (simp add: invoke_def shortPage_def pageRequest_def)
  from Suc.IH [of "page + 1" ?w1 rs1 "answer @ gs"] r1 full last posters1
  obtain gs1 where run: "listPullRequestPages pageSize p owner repo (pageRequest (page + 1)) (answer @ gs) ?w1 =
             Some (Return ((answer @ gs) @ gs1, None),
                   \<lparr>backend = s',
                    calls = calls ?w1 @
                      map (\<lambda>i. ListRepoPullRequestsCall owner repo (pageRequest (page + 1 + int i)))
                        [0..<Suc n]\<rparr>)"
    and conv: "map Return gs1 = map (toPullRequest owner repo) (concat (map fst rs1))"
    by auto
  have calls: "calls ?w1 @
        map (\<lambda>i. ListRepoPullRequestsCall owner repo (pageRequest (page + 1 + int i))) [0..<Suc n]
      = calls w @
        map (\<lambda>i. ListRepoPullRequestsCall owner repo (pageRequest (page + int i))) [0..<Suc (Suc n)]"
    by (simp add: map_upt_Suc [of _ "Suc n"] add.assoc del: upt_Suc)
  from step run calls
  have "listPullRequestPages pageSize p owner repo (pageRequest page) answer w =
          Some (Return (answer @ (gs @ gs1), None),
                \<lparr>backend = s',
                 calls = calls w @
                   map (\<lambda>i. ListRepoPullRequestsCall owner repo (pageRequest (page + int i)))
                     [0..<Suc (Suc n)]\<rparr>)"
    by simp
  moreover from gs(2) conv rs
  have "map Return (gs @ gs1) = map (toPullRequest owner repo) (concat (map fst rs))"
    by simp
  ultimately show ?case
    by blast
qed

lemma appendPullRequests_Return:
  "appendPullRequests owner repo answer prs = Return answer' \<Longrightarrow>
   \<exists>gs. answer' = answer @ gs \<and> map Return gs = map (toPullRequest owner repo) prs"
proof (induction prs arbitrary: answer)
  case Nil
  then show ?case by simp
next
  case (Cons pr prs)
  then obtain g where g: "toPullRequest owner repo pr = Return g"
    and r: "appendPullRequests owner repo (answer @ [g]) prs = Return answer'"
    by (auto split: outcome.splits)
  from Cons.IH [OF r] obtain gs where "answer' = (answer @ [g]) @ gs"
    "map Return gs = map (toPullRequest owner repo) prs"
    by blast
  with g have "answer' = answer @ (g # gs)
      \<and> map Return (g # gs) = map (toPullRequest owner repo) (pr # prs)"
    by simp
  then show ?case by blast
qed

lemma listPullRequestPages_returned:
  assumes run: "listPullRequestPages pageSize (p :: 's GiteaProvider) owner repo opt answer w = Some y"
    and y: "y = (Return (answer', None), w')"
    and size0: "ListOptions_PageSize opt = 0"
  shows "\<exists>n rs gs.
           pageResponses p owner repo (ListOptions_Page opt) (Suc n) (backend w) = (rs, backend w')
           \<and> (\<forall>i<n. snd (rs ! i) = None \<and> \<not> shortPage pageSize (fst (rs ! i)))
           \<and> snd (rs ! n) = None \<and> shortPage pageSize (fst (rs ! n))
           \<and> answer' = answer @ gs
           \<and> map Return gs = map (toPullRequest owner repo) (concat (map fst rs))
           \<and> calls w' = calls w @
                map (\<lambda>i. ListRepoPullRequestsCall owner repo
                           (pageRequest (ListOptions_Page opt + int i))) [0..<Suc n]"
proof -
  define P where "P = (\<lambda>(pageSize :: int) (p :: 's GiteaProvider) owner repo
       (opt :: ListPullRequestsOptions) answer (w :: 's world)
       (y :: (GitPullRequest list \<times> error option) outcome \<times> 's world).
     \<forall>answer' w'. y = (Return (answer', None), w') \<longrightarrow> ListOptions_PageSize opt = 0 \<longrightarrow>
       (\<exists>n rs gs.
           pageResponses p owner repo (ListOptions_Page opt) (Suc n) (backend w) = (rs, backend w')
           \<and> (\<forall>i<n. snd (rs ! i) = None \<and> \<not> shortPage pageSize (fst (rs ! i)))
           \<and> snd (rs ! n) = None \<and> shortPage pageSize (fst (rs ! n))
           \<and> answer' = answer @ gs
           \<and> map Return gs = map (toPullRequest owner repo) (concat (map fst rs))
           \<and> calls w' = calls w @
                map (\<lambda>i. ListRepoPullRequestsCall owner repo
                           (pageRequest (ListOptions_Page opt + int i))) [0..<Suc n]))"
  have "P pageSize p owner repo opt answer w y"
  proof (rule listPullRequestPages.raw_induct [where P = P, OF _ run], goal_cases)
    case (1 f pageSize p owner repo opt answer w y)
    note IH = "1"(1) and body = "1"(2)
    show ?case
      unfolding P_def
    proof (intro allI impI)
      fix answer' w'
      assume y: "y = (Return (answer', None), w')" and size0: "ListOptions_PageSize opt = 0"
      obtain prs resp err s1 where l:
        "gitea_ListRepoPullRequests (Client p) owner repo opt (backend w) = ((prs, resp, err), s1)"
        by (metis prod.exhaust)
      have opt: "opt = pageRequest (ListOptions_Page opt)"
        using size0 by (simp add: pageRequest_def)
      let ?w1 = "\<lparr>backend = s1, calls = calls w @ [ListRepoPullRequestsCall owner repo opt]\<rparr>"
      from body l y obtain answer1 where e: "err = None"
        and a1: "appendPullRequests owner repo answer prs = Return answer1"
        by (auto simp: invoke_def split: option.splits outcome.splits if_splits)
      from appendPullRequests_Return [OF a1] obtain gs where gs: "answer1 = answer @ gs"
        "map Return gs = map (toPullRequest owner repo) prs"
        by blast
      have l': "gitea_ListRepoPullRequests (Client p) owner repo (pageRequest (ListOptions_Page opt))
                  (backend w) = ((prs, resp, None), s1)"
        using l e opt by simp
      show "\<exists>n rs gs.
           pageResponses p owner repo (ListOptions_Page opt) (Suc n) (backend w) = (rs, backend w')
           \<and> (\<forall>i<n. snd (rs ! i) = None \<and> \<not> shortPage pageSize (fst (rs ! i)))
           \<and> snd (rs ! n) = None \<and> shortPage pageSize (fst (rs ! n))
           \<and> answer' = answer @ gs
           \<and> map Return gs = map (toPullRequest owner repo) (concat (map fst rs))
           \<and> calls w' = calls w @
                map (\<lambda>i. ListRepoPullRequestsCall owner repo
                           (pageRequest (ListOptions_Page opt + int i))) [0..<Suc n]"
      proof (cases "shortPage pageSize prs")
        case True
        with body l e a1 y have "answer' = answer1" and w': "w' = ?w1"
          by (auto simp: invoke_def shortPage_def)
        with gs l' True opt have
          "pageResponses p owner repo (ListOptions_Page opt) (Suc 0) (backend w) = ([(prs, None)], backend w')
           \<and> (\<forall>i<(0::nat). snd ([(prs, None :: client_error option)] ! i) = None
                    \<and> \<not> shortPage pageSize (fst ([(prs, None :: client_error option)] ! i)))
           \<and> snd ([(prs, None :: client_error option)] ! 0) = None
           \<and> shortPage pageSize (fst ([(prs, None :: client_error option)] ! 0))
           \<and> answer' = answer @ gs
           \<and> map Return gs = map (toPullRequest owner repo) (concat (map fst [(prs, None :: client_error option)]))
           \<and> calls w' = calls w @
                map (\<lambda>i. ListRepoPullRequestsCall owner repo
                           (pageRequest (ListOptions_Page opt + int i))) [0..<Suc 0]"
          by simp
        then show ?thesis
          by blast
      next
        case False
        let ?opt1 = "opt\<lparr>ListOptions_Page := ListOptions_Page opt + 1\<rparr>"
        from body l e a1 False have rec: "f pageSize p owner repo ?opt1 answer1 ?w1 = Some y"
          by (simp add: invoke_def shortPage_def)
        have ps: "ListOptions_PageSize ?opt1 = 0"
          using size0 by simp
        from IH [OF rec, unfolded P_def, rule_format, OF y ps]
        obtain n rs gs1 where
          r: "pageResponses p owner repo (ListOptions_Page opt + 1) (Suc n) s1 = (rs, backend w')"
          and full: "\<forall>i<n. snd (rs ! i) = None \<and> \<not> shortPage pageSize (fst (rs ! i))"
          and last: "snd (rs ! n) = None" "shortPage pageSize (fst (rs ! n))"
          and ans: "answer' = answer1 @ gs1"
          and conv: "map Return gs1 = map (toPullRequest owner repo) (concat (map fst rs))"
          and cs: "calls w' = calls ?w1 @
                    map (\<lambda>i. ListRepoPullRequestsCall owner repo
                               (pageRequest (ListOptions_Page opt + 1 + int i))) [0..<Suc n]"
          by auto
        let ?rs = "(prs, None :: client_error option) # rs"
        have p1: "pageResponses p owner repo (ListOptions_Page opt) (Suc (Suc n)) (backend w)
                    = (?rs, backend w')"
          using l' r by simp
        have p2: "\<forall>i<Suc n. snd (?rs ! i) = None \<and> \<not> shortPage pageSize (fst (?rs ! i))"
          using full False by (simp add: All_less_Suc2)
        have p3: "snd (?rs ! Suc n) = None \<and> shortPage pageSize (fst (?rs ! Suc n))"
          using last by simp
        have p4: "answer' = answer @ (gs @ gs1)"
          using ans gs(1) by simp
        have p5: "map Return (gs @ gs1) = map (toPullRequest owner repo) (concat (map fst ?rs))"
          using gs(2) conv by simp
        have p6: "calls w' = calls w @
                    map (\<lambda>i. ListRepoPullRequestsCall owner repo
                               (pageRequest (ListOptions_Page opt + int i))) [0..<Suc (Suc n)]"
          using cs opt
          by (simp add: map_upt_Suc [of _ "Suc n"] add.assoc del: upt_Suc)
        from p1 p2 p3 p4 p5 p6 show ?thesis
          by blast
      qed
    qed
  qed
  with y size0 show ?thesis
    unfolding P_def by blast
qed

lemma toPullRequest_Return_poster:
  "toPullRequest owner repo pr = Return g \<Longrightarrow> PullRequest_Poster pr \<noteq> None"
  by (cases "PullRequest_Poster pr") (simp_all add: toPullRequest_def updatePullRequest_def Let_def)

lemma map_Return_posters:
  assumes "map Return answer = map (toPullRequest owner repo) prs"
  shows "\<forall>pr \<in> set prs. PullRequest_Poster pr \<noteq> None"
proof
  fix pr
  assume "pr \<in> set prs"
  then have "toPullRequest owner repo pr \<in> set (map Return answer)"
    using assms by simp
  then obtain g where "toPullRequest owner repo pr = Return g"
    by auto
  then show "PullRequest_Poster pr \<noteq> None"
    by (rule toPullRequest_Return_poster)
qed

lemma map_Return_inject: "map Return xs = map Return ys \<Longrightarrow> xs = ys"
  by (simp add: inj_on_def map_inj_on)

text \<open>
  C3. ListOpenPullRequests returns a list without error exactly when, for some n, the
  client answers the requests for the pages 0, 1, ..., n, made in this order, without
  error, with a full page to each of the first n and with a short or empty page to the
  last. The list is then the conversion of the pull requests of these pages in the
  order of arrival, and the calls made are the requests for the pages 0 to n, each
  once and in order, every one with the same (unset) page size.
\<close>

theorem ListOpenPullRequests_concatenates_pages:
  "ListOpenPullRequests pageSize p owner repo w = Some (Return (answer, None), w') \<longleftrightarrow>
     (\<exists>n rs. pageResponses p owner repo 0 (Suc n) (backend w) = (rs, backend w')
        \<and> (\<forall>i<n. snd (rs ! i) = None \<and> \<not> shortPage pageSize (fst (rs ! i)))
        \<and> snd (rs ! n) = None \<and> shortPage pageSize (fst (rs ! n))
        \<and> map Return answer = map (toPullRequest owner repo) (concat (map fst rs))
        \<and> calls w' = calls w @
             map (\<lambda>i. ListRepoPullRequestsCall owner repo
                        \<lparr>ListOptions_Page = int i, ListOptions_PageSize = 0\<rparr>) [0..<Suc n])"
  (is "?run \<longleftrightarrow> ?pages")
proof
  assume ?run
  then have "listPullRequestPages pageSize p owner repo
               \<lparr>ListOptions_Page = 0, ListOptions_PageSize = 0\<rparr> [] w
             = Some (Return (answer, None), w')"
    by (simp add: ListOpenPullRequests_def)
  from listPullRequestPages_returned [OF this refl]
  show ?pages
    by (simp add: pageRequest_def del: upt_Suc)
next
  assume ?pages
  then obtain n rs where
    r: "pageResponses p owner repo 0 (Suc n) (backend w) = (rs, backend w')"
    and full: "\<forall>i<n. snd (rs ! i) = None \<and> \<not> shortPage pageSize (fst (rs ! i))"
    and last: "snd (rs ! n) = None \<and> shortPage pageSize (fst (rs ! n))"
    and conv: "map Return answer = map (toPullRequest owner repo) (concat (map fst rs))"
    and cs: "calls w' = calls w @
             map (\<lambda>i. ListRepoPullRequestsCall owner repo
                        \<lparr>ListOptions_Page = int i, ListOptions_PageSize = 0\<rparr>) [0..<Suc n]"
    by blast
  from listPullRequestPages_run [OF r full last map_Return_posters [OF conv], of "[]"]
  obtain gs where run: "listPullRequestPages pageSize p owner repo (pageRequest 0) [] w =
             Some (Return (gs, None),
                   \<lparr>backend = backend w',
                    calls = calls w @
                      map (\<lambda>i. ListRepoPullRequestsCall owner repo (pageRequest (0 + int i)))
                        [0..<Suc n]\<rparr>)"
    and gs: "map Return gs = map (toPullRequest owner repo) (concat (map fst rs))"
    by auto
  from gs conv have "gs = answer"
    by (simp add: map_Return_inject)
  with run cs show ?run
    by (simp add: ListOpenPullRequests_def pageRequest_def del: upt_Suc)
qed

theorem ListOpenPullRequests_concatenates_pages_witness:
  "ListOpenPullRequests 2 (provider pagesClient) ''acme'' ''demo'' (world0 ()) =
     Some (Return (map gitPullRequestNo [1, 2, 3, 4, 5], None),
           \<lparr>backend = (),
            calls = [ListRepoPullRequestsCall ''acme'' ''demo'' (pageRequest 0),
                     ListRepoPullRequestsCall ''acme'' ''demo'' (pageRequest 1),
                     ListRepoPullRequestsCall ''acme'' ''demo'' (pageRequest 2)]\<rparr>)"
proof -
  let ?P = "provider pagesClient :: unit GiteaProvider"
  let ?rs = "[([pullRequestNo 1, pullRequestNo 2], None), ([pullRequestNo 3, pullRequestNo 4], None),
              ([pullRequestNo 5], None :: client_error option)]"
  let ?w' = "\<lparr>backend = (),
            calls = [ListRepoPullRequestsCall ''acme'' ''demo'' (pageRequest 0),
                     ListRepoPullRequestsCall ''acme'' ''demo'' (pageRequest 1),
                     ListRepoPullRequestsCall ''acme'' ''demo'' (pageRequest 2)]\<rparr>"
  have h1: "pageResponses ?P ''acme'' ''demo'' 0 (Suc 2) (backend (world0 ())) = (?rs, backend ?w')"
    by (simp add: eval_nat_numeral provider_def pagesClient_def pageRequest_def)
  have h2: "\<forall>i<2. snd (?rs ! i) = None \<and> \<not> shortPage 2 (fst (?rs ! i))"
    by (simp add: eval_nat_numeral less_Suc_eq shortPage_def)
  have h3: "snd (?rs ! 2) = None \<and> shortPage 2 (fst (?rs ! 2))"
    by (simp add: eval_nat_numeral shortPage_def)
  have h4: "map Return (map gitPullRequestNo [1, 2, 3, 4, 5]) =
              map (toPullRequest ''acme'' ''demo'') (concat (map fst ?rs))"
    by (simp add: toPullRequest_def updatePullRequest_def pullRequestNo_def gitPullRequestNo_def)
  have h5: "calls ?w' = calls (world0 ()) @
              map (\<lambda>i. ListRepoPullRequestsCall ''acme'' ''demo''
                         \<lparr>ListOptions_Page = int i, ListOptions_PageSize = 0\<rparr>) [0..<Suc 2]"
    by (simp add: eval_nat_numeral world0_def pageRequest_def)
  from h1 h2 h3 h4 h5
  have "\<exists>n rs. pageResponses ?P ''acme'' ''demo'' 0 (Suc n) (backend (world0 ())) = (rs, backend ?w')
        \<and> (\<forall>i<n. snd (rs ! i) = None \<and> \<not> shortPage 2 (fst (rs ! i)))
        \<and> snd (rs ! n) = None \<and> shortPage 2 (fst (rs ! n))
        \<and> map Return (map gitPullRequestNo [1, 2, 3, 4, 5]) =
            map (toPullRequest ''acme'' ''demo'') (concat (map fst rs))
        \<and> calls ?w' = calls (world0 ()) @
             map (\<lambda>i. ListRepoPullRequestsCall ''acme'' ''demo''
                        \<lparr>ListOptions_Page = int i, ListOptions_PageSize = 0\<rparr>) [0..<Suc n]"
    by blast
  then show ?thesis
    by (rule ListOpenPullRequests_concatenates_pages [THEN iffD2])
qed

subsection \<open>ForkRepository\<close>

lemma waitForFork_run:
  assumes "pollResponses clk p owner name (Suc n) (backend w) = (rs, s')"
    and "\<forall>i<n. \<not> found (rs ! i) \<and> snd (snd (rs ! i)) \<le> deadline"
    and "found (rs ! n) \<or> deadline < snd (snd (rs ! n))"
  shows "waitForFork clk p owner name deadline w =
           Some (pollOutcome owner name (rs ! n),
                 \<lparr>backend = s',
                  calls = calls w @
                    concat (replicate (Suc n) [SleepCall (5 * Second), GetRepoCall owner name])\<rparr>)"
  using assms
proof (induction n arbitrary: w rs)
  case 0
  obtain repo resp err s1 where l:
    "gitea_GetRepo (Client p) owner name (time_Sleep clk (5 * Second) (backend w))
       = ((repo, resp, err), s1)"
    by (metis prod.exhaust)
  with "0.prems"(1) have rs: "rs = [(repo, err, time_Now clk s1)]" and s': "s' = s1"
    by auto
  from "0.prems"(3) rs have stop: "found (repo, err, time_Now clk s1) \<or> deadline < time_Now clk s1"
    by simp
  have "waitForFork clk p owner name deadline w =
          Some (pollOutcome owner name (repo, err, time_Now clk s1),
                \<lparr>backend = s1,
                 calls = calls w @ [SleepCall (5 * Second), GetRepoCall owner name]\<rparr>)"
    using l stop
    by (subst waitForFork.simps)
       (auto simp: invoke_def found_def pollOutcome_def split: option.splits)
  with rs s' show ?case
    by simp
next
  case (Suc n)
  obtain repo resp err s1 where l:
    "gitea_GetRepo (Client p) owner name (time_Sleep clk (5 * Second) (backend w))
       = ((repo, resp, err), s1)"
    by (metis prod.exhaust)
  obtain rs1 where r1: "pollResponses clk p owner name (Suc n) s1 = (rs1, s')"
    and rs: "rs = (repo, err, time_Now clk s1) # rs1"
    using Suc.prems(1) l by (auto split: prod.splits)
  from Suc.prems(2) rs have go: "\<not> found (repo, err, time_Now clk s1)" "time_Now clk s1 \<le> deadline"
    by auto
  from Suc.prems(2) rs have more: "\<forall>i<n. \<not> found (rs1 ! i) \<and> snd (snd (rs1 ! i)) \<le> deadline"
    by auto
  from Suc.prems(3) rs have last: "found (rs1 ! n) \<or> deadline < snd (snd (rs1 ! n))"
    by simp
  let ?w1 = "\<lparr>backend = s1, calls = calls w @ [SleepCall (5 * Second), GetRepoCall owner name]\<rparr>"
  have step: "waitForFork clk p owner name deadline w = waitForFork clk p owner name deadline ?w1"
    using l go
    by (subst waitForFork.simps)
       (auto simp: invoke_def found_def split: option.splits)
  from Suc.IH [of ?w1 rs1] r1 more last
  have "waitForFork clk p owner name deadline ?w1 =
           Some (pollOutcome owner name (rs1 ! n),
                 \<lparr>backend = s',
                  calls = calls ?w1 @
                    concat (replicate (Suc n) [SleepCall (5 * Second), GetRepoCall owner name])\<rparr>)"
    by simp
  with step rs show ?case
    by simp
qed

lemma poll_stops:
  assumes sleep: "\<forall>s d. time_Now clk s + d \<le> time_Now clk (time_Sleep clk d s)"
    and mono: "\<forall>s. time_Now clk s \<le> time_Now clk (snd (gitea_GetRepo (Client p) owner name s))"
    and near: "deadline < time_Now clk s + int (Suc k) * (5 * Second)"
  shows "\<exists>n rs s'. n \<le> k \<and> pollResponses clk p owner name (Suc n) s = (rs, s')
           \<and> (\<forall>i<n. \<not> found (rs ! i) \<and> snd (snd (rs ! i)) \<le> deadline)
           \<and> (found (rs ! n) \<or> deadline < snd (snd (rs ! n)))"
  using near
proof (induction k arbitrary: s)
  case 0
  obtain repo resp err s1 where l:
    "gitea_GetRepo (Client p) owner name (time_Sleep clk (5 * Second) s) = ((repo, resp, err), s1)"
    by (metis prod.exhaust)
  from sleep have "time_Now clk s + 5 * Second \<le> time_Now clk (time_Sleep clk (5 * Second) s)"
    by blast
  moreover from mono l have "time_Now clk (time_Sleep clk (5 * Second) s) \<le> time_Now clk s1"
    by (metis snd_conv)
  ultimately have "deadline < time_Now clk s1"
    using "0.prems" by simp
  with l have "(0::nat) \<le> 0 \<and> pollResponses clk p owner name (Suc 0) s = ([(repo, err, time_Now clk s1)], s1)
      \<and> (\<forall>i<(0::nat). \<not> found ([(repo, err, time_Now clk s1)] ! i)
                \<and> snd (snd ([(repo, err, time_Now clk s1)] ! i)) \<le> deadline)
      \<and> (found ([(repo, err, time_Now clk s1)] ! 0)
          \<or> deadline < snd (snd ([(repo, err, time_Now clk s1)] ! 0)))"
    by simp
  then show ?case
    by blast
next
  case (Suc k)
  obtain repo resp err s1 where l:
    "gitea_GetRepo (Client p) owner name (time_Sleep clk (5 * Second) s) = ((repo, resp, err), s1)"
    by (metis prod.exhaust)
  let ?r = "(repo, err, time_Now clk s1)"
  show ?case
  proof (cases "found ?r \<or> deadline < time_Now clk s1")
    case True
    with l have "(0::nat) \<le> Suc k \<and> pollResponses clk p owner name (Suc 0) s = ([?r], s1)
      \<and> (\<forall>i<(0::nat). \<not> found ([?r] ! i) \<and> snd (snd ([?r] ! i)) \<le> deadline)
      \<and> (found ([?r] ! 0) \<or> deadline < snd (snd ([?r] ! 0)))"
      by simp
    then show ?thesis
      by blast
  next
    case False
    from sleep have "time_Now clk s + 5 * Second \<le> time_Now clk (time_Sleep clk (5 * Second) s)"
      by blast
    moreover from mono l have "time_Now clk (time_Sleep clk (5 * Second) s) \<le> time_Now clk s1"
      by (metis snd_conv)
    ultimately have "deadline < time_Now clk s1 + int (Suc k) * (5 * Second)"
      using Suc.prems by (simp add: algebra_simps)
    from Suc.IH [OF this] obtain n rs1 s' where n: "n \<le> k"
      and r1: "pollResponses clk p owner name (Suc n) s1 = (rs1, s')"
      and more: "\<forall>i<n. \<not> found (rs1 ! i) \<and> snd (snd (rs1 ! i)) \<le> deadline"
      and last: "found (rs1 ! n) \<or> deadline < snd (snd (rs1 ! n))"
      by blast
    have "Suc n \<le> Suc k \<and> pollResponses clk p owner name (Suc (Suc n)) s = (?r # rs1, s')
      \<and> (\<forall>i<Suc n. \<not> found ((?r # rs1) ! i) \<and> snd (snd ((?r # rs1) ! i)) \<le> deadline)
      \<and> (found ((?r # rs1) ! Suc n) \<or> deadline < snd (snd ((?r # rs1) ! Suc n)))"
      using n l r1 more last False by (simp add: All_less_Suc2)
    then show ?thesis
      by blast
  qed
qed

text \<open>
  C2. Let the fork request fail with an error whose text contains ``try again later'',
  on a clock on which a sleep lasts at least its duration and a fetch of the repository
  does not turn time back. Then ForkRepository returns, after at most thirteen rounds
  of ``sleep five seconds, fetch the repository'' and no other call. It stops at the
  first round whose fetch gives a repository and no error, or after which more than
  one minute has passed since the polling began: in the first case it returns that
  repository (converted), otherwise the timeout error, which carries the error of that
  last fetch.
\<close>

theorem ForkRepository_polls_until_found_or_deadline:
  assumes fork: "gitea_CreateFork (Client p) originalOrg name
                   \<lparr>CreateForkOption_Organization = Some destinationOrg\<rparr> (backend w)
                 = ((repo0, resp0, Some e), s0)"
    and retry: "Contains e ''try again later''"
    and owner: "owner = (if destinationOrg = '''' then Username p else destinationOrg)"
    and sleep: "\<forall>s d. time_Now clk s + d \<le> time_Now clk (time_Sleep clk d s)"
    and mono: "\<forall>s. time_Now clk s \<le> time_Now clk (snd (gitea_GetRepo (Client p) owner name s))"
  shows "\<exists>n rs s'. n \<le> 12
           \<and> pollResponses clk p owner name (Suc n) s0 = (rs, s')
           \<and> (\<forall>i<n. \<not> found (rs ! i) \<and> snd (snd (rs ! i)) \<le> time_Now clk s0 + Minute)
           \<and> (found (rs ! n) \<or> time_Now clk s0 + Minute < snd (snd (rs ! n)))
           \<and> ForkRepository clk p originalOrg name destinationOrg w =
               Some (Return (case pollOutcome owner name (rs ! n) of
                               Inr r \<Rightarrow> (Some (toGiteaRepo name r), None)
                             | Inl timeout \<Rightarrow> (None, Some timeout)),
                     \<lparr>backend = s',
                      calls = calls w @
                        CreateForkCall originalOrg name
                          \<lparr>CreateForkOption_Organization = Some destinationOrg\<rparr> #
                        concat (replicate (Suc n) [SleepCall (5 * Second), GetRepoCall owner name])\<rparr>)
           \<and> (\<forall>r. fst (rs ! n) = Some r \<and> fst (snd (rs ! n)) = None \<longrightarrow>
                  pollOutcome owner name (rs ! n) = Inr r)
           \<and> (\<not> found (rs ! n) \<longrightarrow>
                  pollOutcome owner name (rs ! n) =
                    Inl (Errorf ''Gave up waiting for Repository %s/%s to appear: %s''
                           [Str owner, Str name, Err (fst (snd (rs ! n)))]))"
proof -
  let ?deadline = "time_Now clk s0 + Minute"
  let ?opt = "\<lparr>CreateForkOption_Organization = Some destinationOrg\<rparr>"
  let ?w1 = "\<lparr>backend = s0, calls = calls w @ [CreateForkCall originalOrg name ?opt]\<rparr>"
  have near: "?deadline < time_Now clk s0 + int (Suc 12) * (5 * Second)"
    by (simp add: Minute_def Second_def)
  from poll_stops [OF sleep mono near] obtain n rs s' where n: "n \<le> 12"
    and r: "pollResponses clk p owner name (Suc n) s0 = (rs, s')"
    and go: "\<forall>i<n. \<not> found (rs ! i) \<and> snd (snd (rs ! i)) \<le> ?deadline"
    and stop: "found (rs ! n) \<or> ?deadline < snd (snd (rs ! n))"
    by blast
  from r have r': "pollResponses clk p owner name (Suc n) (backend ?w1) = (rs, s')"
    by simp
  have wait: "waitForFork clk p owner name ?deadline ?w1 =
           Some (pollOutcome owner name (rs ! n),
                 \<lparr>backend = s',
                  calls = calls ?w1 @
                    concat (replicate (Suc n) [SleepCall (5 * Second), GetRepoCall owner name])\<rparr>)"
    by (rule waitForFork_run [OF r' go stop])
  have run: "ForkRepository clk p originalOrg name destinationOrg w =
               Some (Return (case pollOutcome owner name (rs ! n) of
                               Inr r \<Rightarrow> (Some (toGiteaRepo name r), None)
                             | Inl timeout \<Rightarrow> (None, Some timeout)),
                     \<lparr>backend = s',
                      calls = calls w @
                        CreateForkCall originalOrg name ?opt #
                        concat (replicate (Suc n) [SleepCall (5 * Second), GetRepoCall owner name])\<rparr>)"
    using fork retry wait owner
    by (cases "pollOutcome owner name (rs ! n)")
       (simp_all add: ForkRepository_def invoke_def Let_def)
  have o1: "\<forall>r. fst (rs ! n) = Some r \<and> fst (snd (rs ! n)) = None \<longrightarrow>
                  pollOutcome owner name (rs ! n) = Inr r"
    by (simp add: pollOutcome_def)
  have o2: "\<not> found (rs ! n) \<longrightarrow>
                  pollOutcome owner name (rs ! n) =
                    Inl (Errorf ''Gave up waiting for Repository %s/%s to appear: %s''
                           [Str owner, Str name, Err (fst (snd (rs ! n)))])"
    by (auto simp: pollOutcome_def found_def split: option.splits)
  from n r go stop run o1 o2 show ?thesis
    by blast
qed

theorem ForkRepository_polls_until_found_or_deadline_witness:
  "(\<exists>n\<le>12. \<exists>out s'.
       ForkRepository stateClock (provider forkClient) ''upstream'' ''demo'' '''' (world0 0) =
         Some (Return out,
               \<lparr>backend = s',
                calls = CreateForkCall ''upstream'' ''demo'' \<lparr>CreateForkOption_Organization = Some ''''\<rparr> #
                        concat (replicate (Suc n) [SleepCall (5 * Second), GetRepoCall ''bot'' ''demo''])\<rparr>))
   \<and> ForkRepository stateClock (provider forkClient) ''upstream'' ''demo'' '''' (world0 0) =
       Some (Return (Some (toGiteaRepo ''demo'' (repositoryOf ''bot'' ''demo'')), None),
             \<lparr>backend = 15 * Second,
              calls = CreateForkCall ''upstream'' ''demo'' \<lparr>CreateForkOption_Organization = Some ''''\<rparr> #
                      concat (replicate 3 [SleepCall (5 * Second), GetRepoCall ''bot'' ''demo''])\<rparr>)
   \<and> ForkRepository stateClock (provider lostForkClient) ''upstream'' ''demo'' '''' (world0 0) =
       Some (Return (None, Some (Errorf ''Gave up waiting for Repository %s/%s to appear: %s''
                                   [Str ''bot'', Str ''demo'', Err (Some ''404 Not Found'')])),
             \<lparr>backend = 65 * Second,
              calls = CreateForkCall ''upstream'' ''demo'' \<lparr>CreateForkOption_Organization = Some ''''\<rparr> #
                      concat (replicate 13 [SleepCall (5 * Second), GetRepoCall ''bot'' ''demo''])\<rparr>)"
proof -
  let ?P = "provider forkClient :: int GiteaProvider"
  let ?L = "provider lostForkClient :: int GiteaProvider"
  let ?e = "''fork is in progress, try again later''"
  have fork: "gitea_CreateFork (Client ?P) ''upstream'' ''demo''
                \<lparr>CreateForkOption_Organization = Some ''''\<rparr> (backend (world0 0))
              = ((None, Some \<lparr>StatusCode = 500\<rparr>, Some ?e), 0)"
    by (simp add: provider_def forkClient_def world0_def)
  have retry: "Contains ?e ''try again later''"
    by simp
  have owner: "''bot'' = (if '''' = '''' then Username ?P else '''')"
    by (simp add: provider_def)
  have sleep: "\<forall>s d. time_Now stateClock s + d \<le> time_Now stateClock (time_Sleep stateClock d s)"
    by (simp add: stateClock_def)
  have mono: "\<forall>s. time_Now stateClock s
                \<le> time_Now stateClock (snd (gitea_GetRepo (Client ?P) ''bot'' ''demo'' s))"
    by (simp add: stateClock_def provider_def forkClient_def)
  from ForkRepository_polls_until_found_or_deadline [OF fork retry owner sleep mono]
  have a: "\<exists>n\<le>12. \<exists>out s'.
       ForkRepository stateClock ?P ''upstream'' ''demo'' '''' (world0 0) =
         Some (Return out,
               \<lparr>backend = s',
                calls = CreateForkCall ''upstream'' ''demo'' \<lparr>CreateForkOption_Organization = Some ''''\<rparr> #
                        concat (replicate (Suc n) [SleepCall (5 * Second), GetRepoCall ''bot'' ''demo''])\<rparr>)"
    by (auto simp: world0_def simp del: replicate.simps)
  have fork': "gitea_CreateFork (Client ?L) ''upstream'' ''demo''
                \<lparr>CreateForkOption_Organization = Some ''''\<rparr> (backend (world0 0))
              = ((None, Some \<lparr>StatusCode = 500\<rparr>, Some ?e), 0)"
    by (simp add: provider_def lostForkClient_def world0_def)
  let ?w1 = "\<lparr>backend = 0 :: int,
             calls = [CreateForkCall ''upstream'' ''demo'' \<lparr>CreateForkOption_Organization = Some ''''\<rparr>]\<rparr>"
  have p3: "pollResponses stateClock ?P ''bot'' ''demo'' (Suc 2) (backend ?w1) =
          ([(None, Some ''404 Not Found'', 5 * Second), (None, Some ''404 Not Found'', 10 * Second),
            (Some (repositoryOf ''bot'' ''demo''), None, 15 * Second)], 15 * Second)"
    by (simp add: eval_nat_numeral stateClock_def provider_def forkClient_def Second_def)
  have w3: "waitForFork stateClock ?P ''bot'' ''demo'' (0 + Minute) ?w1 =
          Some (Inr (repositoryOf ''bot'' ''demo''),
                \<lparr>backend = 15 * Second,
                 calls = calls ?w1 @
                   concat (replicate (Suc 2) [SleepCall (5 * Second), GetRepoCall ''bot'' ''demo''])\<rparr>)"
    using waitForFork_run [OF p3, of "0 + Minute"]
    by (simp add: eval_nat_numeral less_Suc_eq found_def pollOutcome_def Minute_def Second_def)
  have b: "ForkRepository stateClock ?P ''upstream'' ''demo'' '''' (world0 0) =
       Some (Return (Some (toGiteaRepo ''demo'' (repositoryOf ''bot'' ''demo'')), None),
             \<lparr>backend = 15 * Second,
              calls = CreateForkCall ''upstream'' ''demo'' \<lparr>CreateForkOption_Organization = Some ''''\<rparr> #
                      concat (replicate 3 [SleepCall (5 * Second), GetRepoCall ''bot'' ''demo''])\<rparr>)"
    using fork w3
    by (simp add: ForkRepository_def invoke_def Let_def world0_def provider_def stateClock_def
        eval_nat_numeral)
  let ?miss = "\<lambda>k :: int. (None :: Repository option, Some ''404 Not Found'', k * Second)"
  have p13: "pollResponses stateClock ?L ''bot'' ''demo'' (Suc 12) (backend ?w1) =
          (map ?miss [5, 10, 15, 20, 25, 30, 35, 40, 45, 50, 55, 60, 65], 65 * Second)"
    by (simp add: eval_nat_numeral stateClock_def provider_def lostForkClient_def Second_def)
  have go13: "\<forall>i<12. \<not> found (map ?miss [5, 10, 15, 20, 25, 30, 35, 40, 45, 50, 55, 60, 65] ! i)
      \<and> snd (snd (map ?miss [5, 10, 15, 20, 25, 30, 35, 40, 45, 50, 55, 60, 65] ! i)) \<le> 0 + Minute"
    by (simp add: eval_nat_numeral less_Suc_eq found_def Minute_def Second_def)
  have stop13: "found (map ?miss [5, 10, 15, 20, 25, 30, 35, 40, 45, 50, 55, 60, 65] ! 12)
      \<or> 0 + Minute < snd (snd (map ?miss [5, 10, 15, 20, 25, 30, 35, 40, 45, 50, 55, 60, 65] ! 12))"
    by (simp add: eval_nat_numeral Minute_def Second_def)
  have w13: "waitForFork stateClock ?L ''bot'' ''demo'' (0 + Minute) ?w1 =
          Some (Inl (Errorf ''Gave up waiting for Repository %s/%s to appear: %s''
                       [Str ''bot'', Str ''demo'', Err (Some ''404 Not Found'')]),
                \<lparr>backend = 65 * Second,
                 calls = calls ?w1 @
                   concat (replicate (Suc 12) [SleepCall (5 * Second), GetRepoCall ''bot'' ''demo''])\<rparr>)"
    using waitForFork_run [OF p13 go13 stop13]
    by (simp add: eval_nat_numeral pollOutcome_def del: replicate.simps)
  have c: "ForkRepository stateClock ?L ''upstream'' ''demo'' '''' (world0 0) =
       Some (Return (None, Some (Errorf ''Gave up waiting for Repository %s/%s to appear: %s''
                                   [Str ''bot'', Str ''demo'', Err (Some ''404 Not Found'')])),
             \<lparr>backend = 65 * Second,
              calls = CreateForkCall ''upstream'' ''demo'' \<lparr>CreateForkOption_Organization = Some ''''\<rparr> #
                      concat (replicate 13 [SleepCall (5 * Second), GetRepoCall ''bot'' ''demo''])\<rparr>)"
    using fork' w13
    by (simp add: ForkRepository_def invoke_def Let_def world0_def provider_def stateClock_def
        eval_nat_numeral)
  from a b c show ?thesis
    by blast
qed

end
